theory Spec2Isabelle
  imports Complex_Main "HOL-Library.AList"
begin

section \<open>Python text primitives\<close>

text \<open>
  Python strings are modelled as \<^typ>\<open>string\<close>. A \<^typ>\<open>char\<close> stands for one code point
  in the range 0..255; the character classes below are those of Python's \<^verbatim>\<open>str\<close> methods
  on that range (ASCII and Latin-1).
\<close>

definition code_point :: "char \<Rightarrow> nat" where
  "code_point c = of_char c"

definition isspace :: "char \<Rightarrow> bool" where
  "isspace c =
     (let n = code_point c
      in (9 \<le> n \<and> n \<le> 13) \<or> (28 \<le> n \<and> n \<le> 32) \<or> n = 133 \<or> n = 160)"

definition isalnum :: "char \<Rightarrow> bool" where
  "isalnum c =
     (let n = code_point c
      in (48 \<le> n \<and> n \<le> 57) \<or> (65 \<le> n \<and> n \<le> 90) \<or> (97 \<le> n \<and> n \<le> 122)
         \<or> n = 170 \<or> n = 178 \<or> n = 179 \<or> n = 181 \<or> n = 185 \<or> n = 186
         \<or> (188 \<le> n \<and> n \<le> 190)
         \<or> (192 \<le> n \<and> n \<le> 214) \<or> (216 \<le> n \<and> n \<le> 246) \<or> (248 \<le> n \<and> n \<le> 255))"

definition lower_char :: "char \<Rightarrow> char" where
  "lower_char c =
     (let n = code_point c
      in if (65 \<le> n \<and> n \<le> 90) \<or> (192 \<le> n \<and> n \<le> 214) \<or> (216 \<le> n \<and> n \<le> 222)
         then char_of (n + 32) else c)"

definition lower :: "string \<Rightarrow> string" where
  "lower s = map lower_char s"

text \<open>\<^verbatim>\<open>s.strip()\<close> and \<^verbatim>\<open>s.strip("_")\<close>: characters removed at both ends.\<close>

definition strip_chars :: "(char \<Rightarrow> bool) \<Rightarrow> string \<Rightarrow> string" where
  "strip_chars p s = rev (dropWhile p (rev (dropWhile p s)))"

definition strip :: "string \<Rightarrow> string" where
  "strip s = strip_chars isspace s"

text \<open>\<^verbatim>\<open>s.startswith(p)\<close> and \<^verbatim>\<open>sub in s\<close>.\<close>

definition startswith :: "string \<Rightarrow> string \<Rightarrow> bool" where
  "startswith s p = (take (length p) s = p)"

fun str_in :: "string \<Rightarrow> string \<Rightarrow> bool" where
  "str_in sub [] = (sub = [])"
| "str_in sub (c # cs) = (startswith (c # cs) sub \<or> str_in sub cs)"

text \<open>
  \<^verbatim>\<open>s.replace(old, new)\<close> for a non-empty \<^verbatim>\<open>old\<close>: the occurrences are found from the
  left and do not overlap. The source only calls it with the literals \<^verbatim>\<open>"__"\<close> and
  \<^verbatim>\<open>" Nutrition"\<close>; for an empty \<^verbatim>\<open>old\<close> the model returns the string as it is.
\<close>

function replace :: "string \<Rightarrow> string \<Rightarrow> string \<Rightarrow> string" where
  "replace old new [] = []"
| "replace old new (c # cs) =
     (if old \<noteq> [] \<and> startswith (c # cs) old
      then new @ replace old new (drop (length old) (c # cs))
      else c # replace old new cs)"
  by pat_completeness auto
termination
  by (relation "measure (\<lambda>(old, new, s). length s)") (auto simp: startswith_def)

section \<open>Snake case (\<^verbatim>\<open>NutritionScraper._to_snake_case\<close>)\<close>

definition underscore :: char where
  "underscore = CHR ''_''"

text \<open>
  \<^verbatim>\<open>cleaned = "".join(ch if ch.isalnum() else "_" for ch in text.strip().lower())\<close>
\<close>

definition cleaned_text :: "string \<Rightarrow> string" where
  "cleaned_text t = map (\<lambda>ch. if isalnum ch then ch else underscore) (lower (strip t))"

lemma startswith_length: "startswith s p \<Longrightarrow> length p \<le> length s"
proof -
  assume "startswith s p"
  then have "length (take (length p) s) = length p"
    by (simp add: startswith_def)
  then show ?thesis by simp
qed

lemma replace_length_le: "length new \<le> length old \<Longrightarrow> length (replace old new s) \<le> length s"
proof (induction old new s rule: replace.induct)
  case (1 old new)
  then show ?case by simp
next
  case (2 old new c cs)
  show ?case
  proof (cases "old \<noteq> [] \<and> startswith (c # cs) old")
    case True
    have "length (replace old new (drop (length old) (c # cs))) \<le> length (drop (length old) (c # cs))"
      using 2 True by simp
    moreover have "length old \<le> length (c # cs)"
      using True startswith_length [of "c # cs" old] by simp
    ultimately show ?thesis using True 2(3) by simp
  next
    case False
    then show ?thesis using 2 by auto
  qed
qed

lemma replace_shrinks:
  "old \<noteq> [] \<Longrightarrow> length new < length old \<Longrightarrow> str_in old s \<Longrightarrow>
   length (replace old new s) < length s"
proof (induction s rule: length_induct)
  case (1 s)
  show ?case
  proof (cases s)
    case Nil
    then show ?thesis using 1 by simp
  next
    case (Cons c cs)
    show ?thesis
    proof (cases "startswith (c # cs) old")
      case True
      have le: "length old \<le> length (c # cs)"
        using True startswith_length [of "c # cs" old] by simp
      have "length (replace old new (drop (length old) (c # cs))) \<le> length (drop (length old) (c # cs))"
        using 1(3) by (intro replace_length_le) simp
      then show ?thesis using True 1(2,3) le Cons by simp
    next
      case False
      then have "str_in old cs" using 1(4) Cons by simp
      then have "length (replace old new cs) < length cs"
        using 1 Cons by simp
      then show ?thesis using False Cons by simp
    qed
  qed
qed

text \<open>
  \<^verbatim>\<open>while "__" in cleaned: cleaned = cleaned.replace("__", "_")\<close>
\<close>

function collapse :: "string \<Rightarrow> string" where
  "collapse s = (if str_in ''__'' s then collapse (replace ''__'' ''_'' s) else s)"
  by pat_completeness auto
termination
proof (relation "measure length")
  show "wf (measure length)" by simp
next
  fix s :: string
  assume "str_in ''__'' s"
  then have "length (replace ''__'' ''_'' s) < length s"
    by (intro replace_shrinks) simp_all
  then show "(replace ''__'' ''_'' s, s) \<in> measure length" by simp
qed

declare collapse.simps [simp del]

definition to_snake_case :: "string \<Rightarrow> string" where
  "to_snake_case t = strip_chars (\<lambda>c. c = underscore) (collapse (cleaned_text t))"

section \<open>Values of the output dictionaries\<close>

text \<open>
  The scrapers build JSON-like dictionaries. A dictionary is an association list in
  insertion order: \<^verbatim>\<open>d[k] = v\<close> is \<^const>\<open>AList.update\<close> (an existing key keeps its place, a
  new key goes to the end), \<^verbatim>\<open>del d[k]\<close> is \<^const>\<open>AList.delete\<close>, \<^verbatim>\<open>d.get(k)\<close> is
  \<^const>\<open>map_of\<close>. The values are those of JSON, since a checkpoint file is read with
  \<^verbatim>\<open>json.load\<close>: \<^verbatim>\<open>None\<close>, booleans, numbers, strings, lists and dictionaries. The scrapers
  themselves build strings, lists, dictionaries and \<^verbatim>\<open>None\<close> only.
\<close>

datatype pyval =
    PNone | PBool bool | PInt int | PFloat real | PStr string
  | PList "pyval list" | PDict "(string \<times> pyval) list"

type_synonym pydict = "(string \<times> pyval) list"

text \<open>A \<^verbatim>\<open>Dict[str, str]\<close> (a menu item or a restaurant as the earlier stages emit it).\<close>

type_synonym strdict = "(string \<times> string) list"

definition pydict_of :: "strdict \<Rightarrow> pydict" where
  "pydict_of d = map (\<lambda>(k, v). (k, PStr v)) d"

definition get_str :: "strdict \<Rightarrow> string \<Rightarrow> string \<Rightarrow> string" where
  "get_str d k dflt = (case map_of d k of Some v \<Rightarrow> v | None \<Rightarrow> dflt)"

text \<open>\<^verbatim>\<open>{**a, **b}\<close>: the keys of \<^verbatim>\<open>a\<close> in order, then the new keys of \<^verbatim>\<open>b\<close>; a key of both
  takes the value of \<^verbatim>\<open>b\<close>.\<close>

definition dict_merge :: "('k \<times> 'v) list \<Rightarrow> ('k \<times> 'v) list \<Rightarrow> ('k \<times> 'v) list" where
  "dict_merge a b = fold (\<lambda>(k, v) d. AList.update k v d) b a"

section \<open>Parsed pages\<close>

text \<open>
  BeautifulSoup is outside the repository. A parsed page is represented by what the
  selectors of the scrapers find in it; a text is the result of
  \<^verbatim>\<open>get_text(" ", strip=True)\<close> (or \<^verbatim>\<open>get_text(strip=True)\<close>, as the source has it) on the
  element. Where the source reads the direct text nodes of an element, the element is
  given as a tree of \<open>node\<close>s.
\<close>

datatype node = Text string | Element string "node list"

text \<open>One \<^verbatim>\<open>tr\<close>: the text of its first \<^verbatim>\<open>th\<close> (if any) and of each of its \<^verbatim>\<open>td\<close>.\<close>

record table_row =
  header_cell :: "string option"
  data_cells :: "string list"

text \<open>One \<^verbatim>\<open>.col-12\<close> of the allergen section: the text of its first \<^verbatim>\<open>strong\<close> (if any)
  and of each of its \<^verbatim>\<open>.dot\<close> elements.\<close>

record allergen_column =
  strong_text :: "string option"
  dot_texts :: "string list"

record allergen_section =
  col_12 :: "allergen_column list"
  p_texts :: "string list"

text \<open>An \<^verbatim>\<open>a[href]\<close>: its \<^verbatim>\<open>href\<close> and its children.\<close>

record anchor =
  href :: string
  anchor_children :: "node list"

text \<open>One \<^verbatim>\<open>div.category\<close> of a restaurant page: the text of its heading (if any) and
  the item anchors of its list.\<close>

record category_block =
  heading :: "string option"
  item_anchors :: "anchor list"

text \<open>One \<^verbatim>\<open>.filter_target\<close> card of the listing page: the \<^verbatim>\<open>href\<close> of its first anchor
  that has one, and the children of its \<^verbatim>\<open>div.logo_box_text\<close>.\<close>

record restaurant_card =
  card_href :: "string option"
  logo_box_text :: "node list option"

record document =
  table_item_nutrition_class :: "table_row list option"
  table_item_nutrition_id :: "table_row list option"
  table_nutrition_class :: "table_row list option"
  allergens_section :: "allergen_section option"
  h1 :: "string option"
  title_tag :: "string option"
  dropdown_menu :: "(string \<times> string) list option"
  ingredients2 :: "string option"
  item_photo_src :: "string option"
  content_img_srcs :: "string option list"
  logo_float_src :: "string option"
  category_blocks :: "category_block list"
  rest_item_list :: "restaurant_card list option"

text \<open>
  \<^verbatim>\<open>dropdown_menu\<close>: the anchors \<^verbatim>\<open>a[href]\<close> of the first \<^verbatim>\<open>div.dropdown-menu\<close>, each as its
  text and its \<^verbatim>\<open>href\<close>. \<^verbatim>\<open>content_img_srcs\<close>: the \<^verbatim>\<open>src\<close> attribute (if any) of each image
  under \<^verbatim>\<open>div.col-12\<close> or \<^verbatim>\<open>div.col-md-6\<close>.
\<close>

section \<open>Errors\<close>

datatype exn =
    NetworkException string int string
  | ValueError
  | AttributeError string string
  | TypeError string

text \<open>
  \<^verbatim>\<open>with_error_handling(default_return)\<close>: the wrapper returns what the function returns, and
  \<^verbatim>\<open>default_return\<close> when the function raises.
\<close>

definition with_error_handling :: "'a \<Rightarrow> exn + 'a \<Rightarrow> 'a" where
  "with_error_handling default_return r = (case r of Inl e \<Rightarrow> default_return | Inr v \<Rightarrow> v)"

text \<open>
  A document that is \<^verbatim>\<open>None\<close> (see \<open>fetch_page\<close> below): the first method called on it
  raises \<^verbatim>\<open>AttributeError\<close>.
\<close>

definition on_document :: "string \<Rightarrow> document option \<Rightarrow> (document \<Rightarrow> 'a) \<Rightarrow> exn + 'a" where
  "on_document method doc f =
     (case doc of None \<Rightarrow> Inl (AttributeError ''NoneType'' method) | Some d \<Rightarrow> Inr (f d))"

section \<open>Nutrition table (\<^verbatim>\<open>NutritionScraper.extract_nutrition_table\<close>)\<close>

text \<open>The \<^verbatim>\<open>key_text\<close> and \<^verbatim>\<open>value_text\<close> of one row (\<^verbatim>\<open>None\<close> where the source leaves them).\<close>

definition row_texts :: "table_row \<Rightarrow> string option \<times> string option" where
  "row_texts row =
     (let header_cell = header_cell row; data_cells = data_cells row
      in if header_cell \<noteq> None \<and> data_cells \<noteq> []
         then (header_cell, Some (data_cells ! 0))
         else if length data_cells \<ge> 2
         then (Some (data_cells ! 0),
               if length data_cells \<ge> 3 then Some (data_cells ! 1) else Some (data_cells ! 1))
         else (None, None))"

definition non_data_header :: "string \<Rightarrow> bool" where
  "non_data_header key_text =
     (startswith (lower key_text) ''amount per serving''
      \<or> startswith (lower key_text) ''% daily value''
      \<or> startswith (lower key_text) ''percent daily'')"

definition placeholder_values :: "string list" where
  "placeholder_values = ['''', ''?'', ''&nbsp;'', ''-'']"

text \<open>The entry a row adds to \<^verbatim>\<open>nutrition\<close>, if it adds one.\<close>

definition row_entry :: "table_row \<Rightarrow> (string \<times> string) option" where
  "row_entry row =
     (case row_texts row of
        (Some key_text, Some value_text) \<Rightarrow>
          if key_text \<noteq> [] \<and> \<not> non_data_header key_text
          then if value_text \<noteq> [] \<and> strip value_text \<noteq> []
                  \<and> strip value_text \<notin> set placeholder_values
               then Some (to_snake_case key_text, strip value_text)
               else None
          else None
      | _ \<Rightarrow> None)"

definition nutrition_row :: "table_row \<Rightarrow> strdict \<Rightarrow> strdict" where
  "nutrition_row row nutrition =
     (case row_entry row of
        Some (k, v) \<Rightarrow> AList.update k v nutrition
      | None \<Rightarrow> nutrition)"

definition select_nutrition_table :: "document \<Rightarrow> table_row list option" where
  "select_nutrition_table document =
     (case table_item_nutrition_class document of
        Some t \<Rightarrow> Some t
      | None \<Rightarrow>
          (case table_item_nutrition_id document of
             Some t \<Rightarrow> Some t
           | None \<Rightarrow> table_nutrition_class document))"

definition extract_nutrition_table :: "document option \<Rightarrow> strdict" where
  "extract_nutrition_table doc =
     with_error_handling []
       (on_document ''select_one'' doc (\<lambda>document.
          case select_nutrition_table document of
            None \<Rightarrow> []
          | Some rows \<Rightarrow> fold nutrition_row rows []))"

section \<open>Allergens, title, ingredients, image (\<^verbatim>\<open>NutritionScraper\<close>)\<close>

record ScrapedAllergens =
  contains :: "string list"
  does_not_contain :: "string list"
  unknown :: "string list"
  allergy_information :: string

definition ScrapedAllergens_default :: ScrapedAllergens where
  "ScrapedAllergens_default =
     \<lparr>contains = [], does_not_contain = [], unknown = [], allergy_information = ''''\<rparr>"

definition allergens_dict :: "ScrapedAllergens \<Rightarrow> pydict" where
  "allergens_dict a =
     [(''contains'', PList (map PStr (contains a))),
      (''does_not_contain'', PList (map PStr (does_not_contain a))),
      (''unknown'', PList (map PStr (unknown a))),
      (''allergy_information'', PStr (allergy_information a))]"

text \<open>One pass of \<^verbatim>\<open>for col in columns\<close>.\<close>

definition allergen_column_step :: "allergen_column \<Rightarrow> ScrapedAllergens \<Rightarrow> ScrapedAllergens" where
  "allergen_column_step col allergens_data =
     (case strong_text col of
        None \<Rightarrow> allergens_data
      | Some header \<Rightarrow>
          (let header_text = lower header;
               allergen_list = filter (\<lambda>t. t \<noteq> []) (dot_texts col)
           in if str_in ''contains'' header_text \<and> \<not> str_in ''not'' header_text
                 \<and> \<not> str_in ''may'' header_text
              then allergens_data\<lparr>contains := allergen_list\<rparr>
              else if str_in ''does not contain'' header_text
              then allergens_data\<lparr>does_not_contain := allergen_list\<rparr>
              else if str_in ''unknown'' header_text \<or> str_in ''aren't sure'' header_text
              then allergens_data\<lparr>unknown := allergen_list\<rparr>
              else allergens_data))"

text \<open>One pass of \<^verbatim>\<open>for p in info_paragraphs\<close>.\<close>

definition allergy_paragraph_step :: "string \<Rightarrow> ScrapedAllergens \<Rightarrow> ScrapedAllergens" where
  "allergy_paragraph_step text allergens_data =
     (if text \<noteq> [] \<and> (str_in ''allergy'' (lower text) \<or> str_in ''allergen'' (lower text))
      then allergens_data\<lparr>allergy_information := text\<rparr>
      else allergens_data)"

definition extract_allergens :: "document option \<Rightarrow> ScrapedAllergens" where
  "extract_allergens doc =
     with_error_handling ScrapedAllergens_default
       (on_document ''select_one'' doc (\<lambda>document.
          case allergens_section document of
            None \<Rightarrow> ScrapedAllergens_default
          | Some allergen_section \<Rightarrow>
              fold allergy_paragraph_step (p_texts allergen_section)
                (fold allergen_column_step (col_12 allergen_section) ScrapedAllergens_default)))"

definition extract_title :: "document option \<Rightarrow> string" where
  "extract_title doc =
     with_error_handling ''''
       (on_document ''find'' doc (\<lambda>document.
          case h1 document of
            Some t \<Rightarrow> t
          | None \<Rightarrow> (case title_tag document of Some t \<Rightarrow> t | None \<Rightarrow> '''')))"

definition extract_ingredients :: "document option \<Rightarrow> string" where
  "extract_ingredients doc =
     with_error_handling ''''
       (on_document ''select_one'' doc (\<lambda>document.
          case ingredients2 document of
            Some text \<Rightarrow> (if text \<noteq> [] then text else '''')
          | None \<Rightarrow> ''''))"

text \<open>
  \<^verbatim>\<open>urljoin\<close> is a library function: it is a parameter of the model. The second try of
  \<^verbatim>\<open>extract_item_image\<close> returns at the first image that is not a logo or an icon.
\<close>

fun first_content_image :: "string option list \<Rightarrow> string option" where
  "first_content_image [] = None"
| "first_content_image (img # imgs) =
     (let src = (case img of Some v \<Rightarrow> v | None \<Rightarrow> '''')
      in if src \<noteq> [] \<and> \<not> str_in ''/logos/'' src \<and> \<not> str_in ''/icons/'' src
         then Some src
         else first_content_image imgs)"

definition extract_item_image ::
  "(string \<Rightarrow> string \<Rightarrow> string) \<Rightarrow> string \<Rightarrow> document option \<Rightarrow> string option" where
  "extract_item_image uj base doc =
     with_error_handling None
       (on_document ''select_one'' doc (\<lambda>document.
          case item_photo_src document of
            Some src \<Rightarrow>
              (if src \<noteq> [] then Some (uj base src)
               else map_option (uj base) (first_content_image (content_img_srcs document)))
          | None \<Rightarrow> map_option (uj base) (first_content_image (content_img_srcs document))))"

section \<open>Serving size options (\<^verbatim>\<open>NutritionScraper.extract_dropdown_options\<close>)\<close>

record dropdown_option =
  option_title :: string
  option_url :: string

text \<open>
  \<^verbatim>\<open>for opt in options: if opt["url"] not in seen: seen.add(opt["url"]); unique.append(opt)\<close>
\<close>

fun unique_by_url :: "dropdown_option list \<Rightarrow> string set \<Rightarrow> dropdown_option list \<Rightarrow> dropdown_option list" where
  "unique_by_url [] seen unique = unique"
| "unique_by_url (opt # options) seen unique =
     (if option_url opt \<notin> seen
      then unique_by_url options (insert (option_url opt) seen) (unique @ [opt])
      else unique_by_url options seen unique)"

definition extract_dropdown_options ::
  "(string \<Rightarrow> string \<Rightarrow> string) \<Rightarrow> string \<Rightarrow> document option \<Rightarrow> dropdown_option list" where
  "extract_dropdown_options uj base doc =
     with_error_handling []
       (on_document ''select_one'' doc (\<lambda>document.
          case dropdown_menu document of
            None \<Rightarrow> []
          | Some anchors \<Rightarrow>
              unique_by_url
                (map (\<lambda>(option_text, h). \<lparr>option_title = option_text, option_url = uj base h\<rparr>)
                   anchors)
                {} []))"

section \<open>Base scraper (\<^verbatim>\<open>scrapers/base_scraper.py\<close>)\<close>

record ScraperConfig =
  base_url :: string
  max_retries :: int
  retry_delay :: real
  timeout :: int
  rate_limit_delay :: real

record ScraperStats =
  total_requests :: int
  successful_requests :: int
  failed_requests :: int
  total_retries :: int

definition record_success :: "ScraperStats \<Rightarrow> ScraperStats" where
  "record_success st =
     st\<lparr>total_requests := total_requests st + 1,
        successful_requests := successful_requests st + 1\<rparr>"

definition record_failure :: "ScraperStats \<Rightarrow> ScraperStats" where
  "record_failure st =
     st\<lparr>total_requests := total_requests st + 1,
        failed_requests := failed_requests st + 1\<rparr>"

definition record_retry :: "ScraperStats \<Rightarrow> ScraperStats" where
  "record_retry st = st\<lparr>total_retries := total_retries st + 1\<rparr>"

text \<open>
  What the scraper does to the outside is kept in a trace: every \<^verbatim>\<open>session.get\<close> and every
  \<^verbatim>\<open>time.sleep\<close>, the latter with the place in the source that calls it.
\<close>

datatype sleep_site = RateLimit | Backoff | ItemPause | RestaurantPause

datatype event = Request string | Sleep sleep_site real

text \<open>
  The state of one scraper instance: its statistics, its rate limiter
  (\<^verbatim>\<open>last_request_time\<close>), the clock that \<^verbatim>\<open>time.time()\<close> reads, the number of requests sent
  so far, and the trace.
\<close>

record scraper =
  stats :: ScraperStats
  last_request_time :: "real option"
  clock :: real
  sent :: nat
  trace :: "event list"

text \<open>
  The outside world: the outcome of the \<open>k\<close>-th request of the run when it is sent to a
  URL (the parsed page, or the message of the exception that \<^verbatim>\<open>session.get\<close>,
  \<^verbatim>\<open>raise_for_status\<close> or the parser raises), the time that request takes, and \<^verbatim>\<open>urljoin\<close>.
\<close>

datatype response = Ok document | Failed string

record world =
  net :: "nat \<Rightarrow> string \<Rightarrow> response"
  latency :: "nat \<Rightarrow> real"
  urljoin :: "string \<Rightarrow> string \<Rightarrow> string"

text \<open>\<^verbatim>\<open>time.sleep(d)\<close> raises \<^verbatim>\<open>ValueError\<close> for a negative \<open>d\<close>.\<close>

definition time_sleep :: "sleep_site \<Rightarrow> real \<Rightarrow> scraper \<Rightarrow> exn + scraper" where
  "time_sleep site d s =
     (if d < 0 then Inl ValueError
      else Inr (s\<lparr>clock := clock s + d, trace := trace s @ [Sleep site d]\<rparr>))"

text \<open>\<^verbatim>\<open>RateLimiter.wait\<close>, with \<^verbatim>\<open>min_delay = config.rate_limit_delay\<close>. Its sleep is positive.\<close>

definition rate_limiter_wait :: "ScraperConfig \<Rightarrow> scraper \<Rightarrow> scraper" where
  "rate_limiter_wait cfg s =
     (let s1 =
        (case last_request_time s of
           None \<Rightarrow> s
         | Some t \<Rightarrow>
             (let elapsed = clock s - t
              in if elapsed < rate_limit_delay cfg
                 then s\<lparr>clock := clock s + (rate_limit_delay cfg - elapsed),
                        trace := trace s @ [Sleep RateLimit (rate_limit_delay cfg - elapsed)]\<rparr>
                 else s))
      in s1\<lparr>last_request_time := Some (clock s1)\<rparr>)"

definition session_get :: "world \<Rightarrow> string \<Rightarrow> scraper \<Rightarrow> response \<times> scraper" where
  "session_get w url s =
     (net w (sent s) url,
      s\<lparr>clock := clock s + latency w (sent s), sent := Suc (sent s),
        trace := trace s @ [Request url]\<rparr>)"

text \<open>\<^verbatim>\<open>range(n)\<close>\<close>

definition range_py :: "int \<Rightarrow> int list" where
  "range_py n = map int [0..<nat n]"

text \<open>
  The loop \<^verbatim>\<open>for attempt in range(max_retries)\<close> of \<^verbatim>\<open>fetch_page\<close>. When the range is
  exhausted without a return or a raise (only for \<^verbatim>\<open>max_retries \<le> 0\<close>), the function
  returns \<^verbatim>\<open>None\<close>.
\<close>

fun fetch_attempts ::
  "ScraperConfig \<Rightarrow> world \<Rightarrow> string \<Rightarrow> int \<Rightarrow> real \<Rightarrow> int list \<Rightarrow> scraper
   \<Rightarrow> (exn + document option) \<times> scraper" where
  "fetch_attempts cfg w url retries delay [] s = (Inr None, s)"
| "fetch_attempts cfg w url retries delay (attempt # rest) s =
     (let s1 = rate_limiter_wait cfg s;
          (resp, s2) = session_get w url s1
      in case resp of
           Ok soup \<Rightarrow> (Inr (Some soup), s2\<lparr>stats := record_success (stats s2)\<rparr>)
         | Failed e \<Rightarrow>
             (let s3 = s2\<lparr>stats := record_retry (stats s2)\<rparr>
              in if attempt < retries - 1
                 then (case time_sleep Backoff (delay * 2 ^ nat attempt) s3 of
                         Inl err \<Rightarrow> (Inl err, s3)
                       | Inr s4 \<Rightarrow> fetch_attempts cfg w url retries delay rest s4)
                 else (Inl (NetworkException url retries e),
                       s3\<lparr>stats := record_failure (stats s3)\<rparr>)))"

text \<open>
  \<^verbatim>\<open>max_retries = max_retries or self.config.max_retries\<close>, and the same for \<^verbatim>\<open>retry_delay\<close>:
  an argument that is \<^verbatim>\<open>None\<close> or zero gives way to the configured value.
\<close>

definition or_else :: "'a::zero option \<Rightarrow> 'a \<Rightarrow> 'a" where
  "or_else arg dflt = (case arg of Some v \<Rightarrow> if v \<noteq> 0 then v else dflt | None \<Rightarrow> dflt)"

definition fetch_page ::
  "ScraperConfig \<Rightarrow> world \<Rightarrow> string \<Rightarrow> int option \<Rightarrow> real option \<Rightarrow> scraper
   \<Rightarrow> (exn + document option) \<times> scraper" where
  "fetch_page cfg w url max_retries_arg retry_delay_arg s =
     (let max_retries = or_else max_retries_arg (max_retries cfg);
          retry_delay = or_else retry_delay_arg (retry_delay cfg)
      in fetch_attempts cfg w url max_retries retry_delay (range_py max_retries) s)"

text \<open>\<^verbatim>\<open>str(e)\<close> of an exception, with \<^verbatim>\<open>str\<close> of an integer in decimal.\<close>

function str_nat :: "nat \<Rightarrow> string" where
  "str_nat n =
     (if n < 10 then [char_of (48 + n)]
      else str_nat (n div 10) @ [char_of (48 + n mod 10)])"
  by pat_completeness auto
termination
  by (relation "measure id") simp_all

declare str_nat.simps [simp del]

definition str_int :: "int \<Rightarrow> string" where
  "str_int i = (if i < 0 then CHR ''-'' # str_nat (nat (- i)) else str_nat (nat i))"

fun str_exn :: "exn \<Rightarrow> string" where
  "str_exn (NetworkException url retries cause) =
     ''Failed to fetch '' @ url @ '' after '' @ str_int retries @ '' attempts: '' @ cause"
| "str_exn ValueError = ''sleep length must be non-negative''"
| "str_exn (AttributeError type_name method) =
     [CHR 0x27] @ type_name @ [CHR 0x27] @ '' object has no attribute ''
     @ [CHR 0x27] @ method @ [CHR 0x27]"
| "str_exn (TypeError message) = message"

section \<open>One serving size (\<^verbatim>\<open>NutritionScraper.extract_item_nutrition_data\<close>)\<close>

text \<open>
  \<^verbatim>\<open>ScrapedNutrition(**nutrition_dict).dict()\<close>: the declared fields in their order
  (\<^verbatim>\<open>None\<close> when the table has no such key), then the extra keys (\<^verbatim>\<open>extra = "allow"\<close>).
\<close>

definition nutrition_fields :: "string list" where
  "nutrition_fields =
     [''serving_size'', ''calories'', ''total_fat'', ''saturated_fat'', ''trans_fat'',
      ''cholesterol'', ''sodium'', ''total_carbohydrates'', ''dietary_fiber'', ''sugars'',
      ''added_sugars'', ''protein'', ''vitamin_d'', ''calcium'', ''iron'', ''potassium'']"

definition ScrapedNutrition_dict :: "strdict \<Rightarrow> pydict" where
  "ScrapedNutrition_dict nutrition_dict =
     map (\<lambda>f. (f, case map_of nutrition_dict f of Some v \<Rightarrow> PStr v | None \<Rightarrow> PNone))
       nutrition_fields
     @ map (\<lambda>(k, v). (k, PStr v))
         (filter (\<lambda>(k, v). k \<notin> set nutrition_fields) nutrition_dict)"

record ScrapedServingSize =
  size_label :: string
  nutrition :: strdict

definition serving_size_dict :: "ScrapedServingSize \<Rightarrow> pydict" where
  "serving_size_dict serving_size =
     [(''size_label'', PStr (size_label serving_size)),
      (''nutrition'', PDict (ScrapedNutrition_dict (nutrition serving_size)))]"

definition optional_str :: "string option \<Rightarrow> pyval" where
  "optional_str v = (case v of None \<Rightarrow> PNone | Some t \<Rightarrow> PStr t)"

text \<open>What \<^verbatim>\<open>extract_item_nutrition_data\<close> computes from the fetched page.\<close>

definition nutrition_data_of_page ::
  "ScraperConfig \<Rightarrow> world \<Rightarrow> document option \<Rightarrow> string \<Rightarrow> string
   \<Rightarrow> ScrapedServingSize \<times> ScrapedAllergens \<times> string \<times> string option" where
  "nutrition_data_of_page cfg w doc size_label_arg fallback_title =
     (let title = (if extract_title doc \<noteq> [] then extract_title doc else fallback_title);
          nutrition_dict = extract_nutrition_table doc;
          allergens = extract_allergens doc;
          ingredients = extract_ingredients doc;
          image_url = extract_item_image (urljoin w) (base_url cfg) doc;
          serving_size =
            \<lparr>size_label = (if size_label_arg \<noteq> [] then size_label_arg else title),
             nutrition = nutrition_dict\<rparr>
      in (serving_size, allergens, ingredients, image_url))"

definition extract_item_nutrition_data ::
  "ScraperConfig \<Rightarrow> world \<Rightarrow> string \<Rightarrow> string \<Rightarrow> string \<Rightarrow> scraper
   \<Rightarrow> (exn + ScrapedServingSize \<times> ScrapedAllergens \<times> string \<times> string option) \<times> scraper" where
  "extract_item_nutrition_data cfg w item_url size_label_arg fallback_title s =
     (case fetch_page cfg w item_url None None s of
        (Inl e, s1) \<Rightarrow> (Inl e, s1)
      | (Inr doc, s1) \<Rightarrow>
          (Inr (nutrition_data_of_page cfg w doc size_label_arg fallback_title), s1))"

section \<open>One menu item (\<^verbatim>\<open>NutritionScraper.process_menu_item\<close>)\<close>

text \<open>
  \<^verbatim>\<open>serving_dict = serving_size.dict(); serving_dict['image_url'] = image_url\<close>
\<close>

definition serving_dict :: "ScrapedServingSize \<Rightarrow> string option \<Rightarrow> pyval" where
  "serving_dict serving_size image_url =
     PDict (AList.update ''image_url'' (optional_str image_url) (serving_size_dict serving_size))"

text \<open>The test \<^verbatim>\<open>allergens.contains or allergens.does_not_contain or allergens.unknown\<close>.\<close>

definition has_allergen_lists :: "ScrapedAllergens \<Rightarrow> bool" where
  "has_allergen_lists allergens =
     (contains allergens \<noteq> [] \<or> does_not_contain allergens \<noteq> [] \<or> unknown allergens \<noteq> [])"

text \<open>
  The loop \<^verbatim>\<open>for i, opt in enumerate(options, 1)\<close>, on the three variables it updates:
  \<^verbatim>\<open>serving_sizes\<close>, \<^verbatim>\<open>aggregated_allergens\<close> and \<^verbatim>\<open>aggregated_ingredients\<close>.
\<close>

fun process_options ::
  "ScraperConfig \<Rightarrow> world \<Rightarrow> string \<Rightarrow> dropdown_option list
   \<Rightarrow> pyval list \<times> ScrapedAllergens \<times> string \<Rightarrow> scraper
   \<Rightarrow> (exn + pyval list \<times> ScrapedAllergens \<times> string) \<times> scraper" where
  "process_options cfg w item_name [] acc s = (Inr acc, s)"
| "process_options cfg w item_name (opt # options)
       (serving_sizes, aggregated_allergens, aggregated_ingredients) s =
     (case extract_item_nutrition_data cfg w (option_url opt) (option_title opt) item_name s of
        (Inl e, s1) \<Rightarrow> (Inl e, s1)
      | (Inr (serving_size, allergens, ingredients, image_url), s1) \<Rightarrow>
          process_options cfg w item_name options
            (serving_sizes @ [serving_dict serving_size image_url],
             if has_allergen_lists allergens then allergens else aggregated_allergens,
             if ingredients \<noteq> [] then ingredients else aggregated_ingredients)
            s1)"

text \<open>The three assignments \<^verbatim>\<open>item[...] = ...\<close> that end both branches.\<close>

definition enrich_item :: "pydict \<Rightarrow> pyval list \<Rightarrow> ScrapedAllergens \<Rightarrow> string \<Rightarrow> pydict" where
  "enrich_item item serving_sizes allergens ingredients =
     AList.update ''ingredients'' (PStr ingredients)
       (AList.update ''allergens'' (PDict (allergens_dict allergens))
          (AList.update ''nutritional_values'' (PDict [(''serving_sizes'', PList serving_sizes)])
             item))"

text \<open>The body of \<^verbatim>\<open>process_menu_item\<close>, before the decorator.\<close>

definition process_menu_item_body ::
  "ScraperConfig \<Rightarrow> world \<Rightarrow> strdict \<Rightarrow> scraper \<Rightarrow> (exn + pydict) \<times> scraper" where
  "process_menu_item_body cfg w item s =
     (let item_url = get_str item ''url'' '''';
          item_name = get_str item ''name'' ''''
      in if item_url = [] then (Inr (pydict_of item), s)
         else
           (case fetch_page cfg w item_url None None s of
              (Inl e, s1) \<Rightarrow> (Inl e, s1)
            | (Inr doc, s1) \<Rightarrow>
                (let options = extract_dropdown_options (urljoin w) (base_url cfg) doc
                 in case
                      (if options \<noteq> []
                       then
                         (case process_options cfg w item_name options
                                 ([], ScrapedAllergens_default, '''') s1 of
                            (Inl e, s2) \<Rightarrow> (Inl e, s2)
                          | (Inr (serving_sizes, aggregated_allergens, aggregated_ingredients), s2) \<Rightarrow>
                              (Inr (enrich_item (pydict_of item) serving_sizes
                                      aggregated_allergens aggregated_ingredients), s2))
                       else
                         (case extract_item_nutrition_data cfg w item_url ''1 serving'' item_name s1 of
                            (Inl e, s2) \<Rightarrow> (Inl e, s2)
                          | (Inr (serving_size, allergens, ingredients, image_url), s2) \<Rightarrow>
                              (Inr (enrich_item (pydict_of item)
                                      [serving_dict serving_size image_url] allergens ingredients),
                               s2)))
                    of
                      (Inl e, s2) \<Rightarrow> (Inl e, s2)
                    | (Inr item', s2) \<Rightarrow>
                        (case time_sleep ItemPause (rate_limit_delay cfg) s2 of
                           Inl e \<Rightarrow> (Inl e, s2)
                         | Inr s3 \<Rightarrow> (Inr item', s3)))))"

text \<open>
  \<^verbatim>\<open>@with_error_handling(default_return={})\<close>. The call sits in a \<^verbatim>\<open>try\<close> block of
  \<^verbatim>\<open>scrape\<close>, so the result keeps the sum type; the wrapper never raises.
\<close>

definition process_menu_item ::
  "ScraperConfig \<Rightarrow> world \<Rightarrow> strdict \<Rightarrow> scraper \<Rightarrow> (exn + pydict) \<times> scraper" where
  "process_menu_item cfg w item s =
     (case process_menu_item_body cfg w item s of
        (r, s') \<Rightarrow> (Inr (with_error_handling [] r), s'))"

section \<open>All restaurants (\<^verbatim>\<open>NutritionScraper.scrape\<close>)\<close>

text \<open>
  \<^verbatim>\<open>{**dict(item), "nutritional_values": {"serving_sizes": []}, "allergens": {}, "error": str(e)}\<close>
\<close>

definition placeholder_item :: "strdict \<Rightarrow> exn \<Rightarrow> pydict" where
  "placeholder_item item e =
     AList.update ''error'' (PStr (str_exn e))
       (AList.update ''allergens'' (PDict [])
          (AList.update ''nutritional_values'' (PDict [(''serving_sizes'', PList [])])
             (pydict_of item)))"

text \<open>The loop \<^verbatim>\<open>for j, item in enumerate(items, 1)\<close> with its \<^verbatim>\<open>try\<close>/\<^verbatim>\<open>except\<close>.\<close>

fun process_items ::
  "ScraperConfig \<Rightarrow> world \<Rightarrow> strdict list \<Rightarrow> pydict list \<Rightarrow> scraper \<Rightarrow> pydict list \<times> scraper" where
  "process_items cfg w [] processed_items s = (processed_items, s)"
| "process_items cfg w (item # items) processed_items s =
     (case process_menu_item cfg w item s of
        (Inr processed_item, s1) \<Rightarrow>
          process_items cfg w items (processed_items @ [processed_item]) s1
      | (Inl e, s1) \<Rightarrow>
          process_items cfg w items (processed_items @ [placeholder_item item e]) s1)"

text \<open>
  One entry of \<^verbatim>\<open>menu_data\<close>: a dictionary read with \<^verbatim>\<open>info.get("url", "")\<close>,
  \<^verbatim>\<open>info.get("restaurant_logo", "")\<close> and \<^verbatim>\<open>info.get("items", [])\<close>.
\<close>

record menu_info =
  info_url :: "string option"
  info_restaurant_logo :: "string option"
  info_items :: "strdict list option"

text \<open>The loop \<^verbatim>\<open>for i, (restaurant_name, info) in enumerate(menu_data.items(), 1)\<close>.\<close>

fun scrape_restaurants ::
  "ScraperConfig \<Rightarrow> world \<Rightarrow> (string \<times> menu_info) list \<Rightarrow> pydict \<Rightarrow> scraper \<Rightarrow> pydict \<times> scraper" where
  "scrape_restaurants cfg w [] enriched_data s = (enriched_data, s)"
| "scrape_restaurants cfg w ((restaurant_name, info) # menu_data) enriched_data s =
     (case process_items cfg w (case info_items info of Some l \<Rightarrow> l | None \<Rightarrow> []) [] s of
        (processed_items, s1) \<Rightarrow>
          scrape_restaurants cfg w menu_data
            (AList.update restaurant_name
               (PDict [(''url'', PStr (case info_url info of Some u \<Rightarrow> u | None \<Rightarrow> '''')),
                       (''restaurant_logo'',
                        PStr (case info_restaurant_logo info of Some u \<Rightarrow> u | None \<Rightarrow> '''')),
                       (''items'', PList (map PDict processed_items))])
               enriched_data)
            (s1\<lparr>clock := clock s1 + 2, trace := trace s1 @ [Sleep RestaurantPause 2]\<rparr>))"

definition nutrition_scrape ::
  "ScraperConfig \<Rightarrow> world \<Rightarrow> (string \<times> menu_info) list \<Rightarrow> scraper \<Rightarrow> pydict \<times> scraper" where
  "nutrition_scrape cfg w menu_data s = scrape_restaurants cfg w menu_data [] s"

section \<open>Texts of elements\<close>

text \<open>
  \<^verbatim>\<open>element.find(string=True, recursive=False)\<close>: the first child that is a text node.
\<close>

fun first_direct_string :: "node list \<Rightarrow> string option" where
  "first_direct_string [] = None"
| "first_direct_string (Text t # children) = Some t"
| "first_direct_string (Element tag inner # children) = first_direct_string children"

text \<open>
  \<^verbatim>\<open>element.get_text(" ", strip=True)\<close>: the text nodes below the element in document
  order, each one stripped, the empty ones left out, joined by one space.
\<close>

fun all_strings :: "node \<Rightarrow> string list" where
  "all_strings (Text t) = [t]"
| "all_strings (Element tag children) = concat (map all_strings children)"

fun join :: "string \<Rightarrow> string list \<Rightarrow> string" where
  "join sep [] = []"
| "join sep [t] = t"
| "join sep (t # u # ts) = t @ sep @ join sep (u # ts)"

definition get_text :: "node list \<Rightarrow> string" where
  "get_text children =
     join '' '' (filter (\<lambda>t. t \<noteq> []) (map strip (concat (map all_strings children))))"

section \<open>Restaurant listing (\<^verbatim>\<open>RestaurantScraper.extract_restaurant_cards\<close>)\<close>

text \<open>
  The value of \<^verbatim>\<open>raw_name\<close> after the block \<^verbatim>\<open>if label: ...\<close>, from the children of the label
  element (\<^verbatim>\<open>None\<close> when the card has no label).
\<close>

definition raw_name :: "node list option \<Rightarrow> string option" where
  "raw_name label =
     (case label of
        None \<Rightarrow> None
      | Some children \<Rightarrow>
          (case first_direct_string children of
             Some t \<Rightarrow>
               (if t \<noteq> [] then Some (strip t)
                else (let text = get_text children
                      in if text \<noteq> [] then Some (strip (replace '' Nutrition'' '''' text)) else None))
           | None \<Rightarrow>
               (let text = get_text children
                in if text \<noteq> [] then Some (strip (replace '' Nutrition'' '''' text)) else None)))"

text \<open>One pass of \<^verbatim>\<open>for card in cards\<close>; \<^verbatim>\<open>results_by_url\<close> maps a URL to the name stored with it.\<close>

definition restaurant_card_step ::
  "(string \<Rightarrow> string \<Rightarrow> string) \<Rightarrow> string \<Rightarrow> restaurant_card \<Rightarrow> strdict \<Rightarrow> strdict" where
  "restaurant_card_step uj base rcard results_by_url =
     (case card_href rcard of
        None \<Rightarrow> results_by_url
      | Some h \<Rightarrow>
          (let absolute_url = uj base h
           in case raw_name (logo_box_text rcard) of
                Some name \<Rightarrow>
                  (if name \<noteq> [] \<and> absolute_url \<noteq> []
                   then AList.update absolute_url name results_by_url
                   else results_by_url)
              | None \<Rightarrow> results_by_url))"

definition extract_restaurant_cards ::
  "(string \<Rightarrow> string \<Rightarrow> string) \<Rightarrow> string \<Rightarrow> document option \<Rightarrow> strdict list" where
  "extract_restaurant_cards uj base doc =
     with_error_handling []
       (on_document ''select_one'' doc (\<lambda>document.
          case rest_item_list document of
            None \<Rightarrow> []
          | Some cards \<Rightarrow>
              map (\<lambda>(u, name). [(''name'', name), (''url'', u)])
                (fold (restaurant_card_step uj base) cards [])))"

section \<open>Menu items of one restaurant (\<^verbatim>\<open>MenuItemScraper\<close>)\<close>

definition extract_logo_url ::
  "(string \<Rightarrow> string \<Rightarrow> string) \<Rightarrow> string \<Rightarrow> document option \<Rightarrow> string" where
  "extract_logo_url uj base doc =
     with_error_handling ''''
       (on_document ''select_one'' doc (\<lambda>document.
          case logo_float_src document of
            Some src \<Rightarrow> (if src \<noteq> [] then uj base src else '''')
          | None \<Rightarrow> ''''))"

definition item_of_anchor ::
  "(string \<Rightarrow> string \<Rightarrow> string) \<Rightarrow> string \<Rightarrow> string \<Rightarrow> anchor \<Rightarrow> strdict" where
  "item_of_anchor uj base category_name a =
     (let item_name =
            (case first_direct_string (anchor_children a) of
               Some t \<Rightarrow> (if t \<noteq> [] then strip t else get_text (anchor_children a))
             | None \<Rightarrow> get_text (anchor_children a))
      in [(''name'', item_name), (''url'', uj base (href a)), (''category'', category_name)])"

definition category_items ::
  "(string \<Rightarrow> string \<Rightarrow> string) \<Rightarrow> string \<Rightarrow> category_block \<Rightarrow> strdict list" where
  "category_items uj base category_block =
     (let category_name = (case heading category_block of Some t \<Rightarrow> t | None \<Rightarrow> ''Uncategorized'')
      in map (item_of_anchor uj base category_name) (item_anchors category_block))"

text \<open>
  \<^verbatim>\<open>for item in items: if item["url"] not in seen: seen.add(item["url"]); unique_items.append(item)\<close>
\<close>

fun unique_items_by_url :: "strdict list \<Rightarrow> string set \<Rightarrow> strdict list \<Rightarrow> strdict list" where
  "unique_items_by_url [] seen unique_items = unique_items"
| "unique_items_by_url (item # items) seen unique_items =
     (if get_str item ''url'' '''' \<notin> seen
      then unique_items_by_url items (insert (get_str item ''url'' '''') seen) (unique_items @ [item])
      else unique_items_by_url items seen unique_items)"

definition extract_menu_items ::
  "(string \<Rightarrow> string \<Rightarrow> string) \<Rightarrow> string \<Rightarrow> document option \<Rightarrow> strdict list" where
  "extract_menu_items uj base doc =
     with_error_handling []
       (on_document ''select'' doc (\<lambda>document.
          unique_items_by_url
            (concat (map (category_items uj base) (category_blocks document))) {} []))"

definition scrape_restaurant_menu ::
  "ScraperConfig \<Rightarrow> world \<Rightarrow> string \<Rightarrow> string \<Rightarrow> scraper
   \<Rightarrow> (exn + string \<times> strdict list) \<times> scraper" where
  "scrape_restaurant_menu cfg w restaurant_name restaurant_url s =
     (case fetch_page cfg w restaurant_url None None s of
        (Inl e, s1) \<Rightarrow> (Inl e, s1)
      | (Inr document, s1) \<Rightarrow>
          (Inr (extract_logo_url (urljoin w) (base_url cfg) document,
                extract_menu_items (urljoin w) (base_url cfg) document), s1))"

section \<open>All menus (\<^verbatim>\<open>MenuItemScraper.scrape\<close>)\<close>

definition menu_entry :: "string \<Rightarrow> string \<Rightarrow> strdict list \<Rightarrow> pyval" where
  "menu_entry url logo_url items =
     PDict [(''url'', PStr url), (''restaurant_logo'', PStr logo_url),
            (''items'', PList (map (\<lambda>item. PDict (pydict_of item)) items))]"

definition menu_placeholder :: "string \<Rightarrow> exn \<Rightarrow> pyval" where
  "menu_placeholder url e =
     PDict [(''url'', PStr url), (''restaurant_logo'', PStr ''''), (''items'', PList []),
            (''error'', PStr (str_exn e))]"

text \<open>
  One pass of \<^verbatim>\<open>for i, restaurant in enumerate(restaurants, 1)\<close>: an entry without a name or
  a URL is skipped; the \<^verbatim>\<open>except\<close> branch stores the placeholder.
\<close>

definition menu_scrape_step ::
  "ScraperConfig \<Rightarrow> world \<Rightarrow> strdict \<Rightarrow> pydict \<times> scraper \<Rightarrow> pydict \<times> scraper" where
  "menu_scrape_step cfg w restaurant st =
     (case st of
        (menu_index, s) \<Rightarrow>
          (case (map_of restaurant ''name'', map_of restaurant ''url'') of
             (Some name, Some url) \<Rightarrow>
               (if name = [] \<or> url = [] then (menu_index, s)
                else
                  (case scrape_restaurant_menu cfg w name url s of
                     (Inr (logo_url, items), s1) \<Rightarrow>
                       (AList.update name (menu_entry url logo_url items) menu_index, s1)
                   | (Inl e, s1) \<Rightarrow>
                       (AList.update name (menu_placeholder url e) menu_index, s1)))
           | _ \<Rightarrow> (menu_index, s)))"

definition menu_scrape ::
  "ScraperConfig \<Rightarrow> world \<Rightarrow> strdict list \<Rightarrow> scraper \<Rightarrow> pydict \<times> scraper" where
  "menu_scrape cfg w restaurants s = fold (menu_scrape_step cfg w) restaurants ([], s)"

section \<open>Checkpoints and stage 3 of the pipeline (\<^verbatim>\<open>utils.py\<close>, \<^verbatim>\<open>main.py\<close>)\<close>

text \<open>
  \<^verbatim>\<open>DataPersistence.load_checkpoints\<close>: each checkpoint file is given as the dictionary that
  \<^verbatim>\<open>json.load\<close> reads from it, or \<^verbatim>\<open>None\<close> when opening or parsing it raises (the file is then
  skipped with a warning). The files come in the order of \<^verbatim>\<open>glob.glob\<close>.
\<close>

definition load_checkpoints :: "pydict option list \<Rightarrow> pydict" where
  "load_checkpoints checkpoint_files =
     fold (\<lambda>file merged_data.
             case file of
               None \<Rightarrow> merged_data
             | Some checkpoint_data \<Rightarrow> dict_merge merged_data checkpoint_data)
       checkpoint_files []"

text \<open>
  \<^verbatim>\<open>for restaurant_name in checkpoints.keys(): if restaurant_name in menu_data: del menu_data[restaurant_name]\<close>
\<close>

definition drop_checkpointed :: "pydict \<Rightarrow> (string \<times> menu_info) list \<Rightarrow> (string \<times> menu_info) list" where
  "drop_checkpointed checkpoints menu_data =
     fold (\<lambda>restaurant_name md.
             if restaurant_name \<in> fst ` set md then AList.delete restaurant_name md else md)
       (map fst checkpoints) menu_data"

text \<open>The work list that \<^verbatim>\<open>scrape_nutrition_data\<close> hands to the nutrition scraper.\<close>

definition pending_menu_data ::
  "bool \<Rightarrow> pydict option list \<Rightarrow> (string \<times> menu_info) list \<Rightarrow> (string \<times> menu_info) list" where
  "pending_menu_data resume_from_checkpoint checkpoint_files menu_data =
     (if resume_from_checkpoint
      then (let checkpoints = load_checkpoints checkpoint_files
            in if checkpoints \<noteq> [] then drop_checkpointed checkpoints menu_data else menu_data)
      else menu_data)"

text \<open>
  The statement that follows the merge reads every value of the result:

  \<^verbatim>\<open>sum(sum(len(item.get('nutritional_values', {}).get('serving_sizes', [])) for item in data.get('items', [])) for data in enriched_data.values())\<close>

  The total only goes to the log, but each of its reads raises on a value of the wrong
  type, and then \<^verbatim>\<open>scrape_nutrition_data\<close> raises instead of returning.
\<close>

text \<open>\<^verbatim>\<open>type(v).__name__\<close>\<close>

fun type_name :: "pyval \<Rightarrow> string" where
  "type_name PNone = ''NoneType''"
| "type_name (PBool b) = ''bool''"
| "type_name (PInt i) = ''int''"
| "type_name (PFloat x) = ''float''"
| "type_name (PStr t) = ''str''"
| "type_name (PList l) = ''list''"
| "type_name (PDict d) = ''dict''"

text \<open>\<^verbatim>\<open>v.get(k, dflt)\<close>: only a dictionary has the method.\<close>

definition py_get :: "pyval \<Rightarrow> string \<Rightarrow> pyval \<Rightarrow> exn + pyval" where
  "py_get v k dflt =
     (case v of
        PDict d \<Rightarrow> Inr (case map_of d k of Some x \<Rightarrow> x | None \<Rightarrow> dflt)
      | _ \<Rightarrow> Inl (AttributeError (type_name v) ''get''))"

text \<open>\<^verbatim>\<open>for x in v\<close>: the elements of a list, the keys of a dictionary, the characters of a
  string; any other value is not iterable.\<close>

definition py_iter :: "pyval \<Rightarrow> exn + pyval list" where
  "py_iter v =
     (case v of
        PList l \<Rightarrow> Inr l
      | PDict d \<Rightarrow> Inr (map (\<lambda>(k, x). PStr k) d)
      | PStr t \<Rightarrow> Inr (map (\<lambda>c. PStr [c]) t)
      | _ \<Rightarrow> Inl (TypeError ([CHR 0x27] @ type_name v @ [CHR 0x27] @ '' object is not iterable'')))"

text \<open>\<^verbatim>\<open>len(v)\<close>\<close>

definition py_len :: "pyval \<Rightarrow> exn + nat" where
  "py_len v =
     (case v of
        PList l \<Rightarrow> Inr (length l)
      | PDict d \<Rightarrow> Inr (length d)
      | PStr t \<Rightarrow> Inr (length t)
      | _ \<Rightarrow> Inl (TypeError (''object of type '' @ [CHR 0x27] @ type_name v @ [CHR 0x27]
                               @ '' has no len()'')))"

text \<open>\<^verbatim>\<open>sum(f(x) for x in xs)\<close>: the first \<open>x\<close> on which \<open>f\<close> raises ends the sum.\<close>

fun sum_py :: "('a \<Rightarrow> exn + nat) \<Rightarrow> 'a list \<Rightarrow> exn + nat" where
  "sum_py f [] = Inr 0"
| "sum_py f (x # xs) =
     (case f x of
        Inl e \<Rightarrow> Inl e
      | Inr n \<Rightarrow> (case sum_py f xs of Inl e \<Rightarrow> Inl e | Inr m \<Rightarrow> Inr (n + m)))"

text \<open>\<^verbatim>\<open>len(item.get('nutritional_values', {}).get('serving_sizes', []))\<close>\<close>

definition item_variations :: "pyval \<Rightarrow> exn + nat" where
  "item_variations item =
     (case py_get item ''nutritional_values'' (PDict []) of
        Inl e \<Rightarrow> Inl e
      | Inr nutritional_values \<Rightarrow>
          (case py_get nutritional_values ''serving_sizes'' (PList []) of
             Inl e \<Rightarrow> Inl e
           | Inr serving_sizes \<Rightarrow> py_len serving_sizes))"

text \<open>The inner sum, over \<^verbatim>\<open>data.get('items', [])\<close>.\<close>

definition restaurant_variations :: "pyval \<Rightarrow> exn + nat" where
  "restaurant_variations data =
     (case py_get data ''items'' (PList []) of
        Inl e \<Rightarrow> Inl e
      | Inr items \<Rightarrow>
          (case py_iter items of
             Inl e \<Rightarrow> Inl e
           | Inr item_list \<Rightarrow> sum_py item_variations item_list))"

text \<open>The outer sum, over \<^verbatim>\<open>enriched_data.values()\<close>.\<close>

definition total_variations :: "pydict \<Rightarrow> exn + nat" where
  "total_variations enriched_data = sum_py restaurant_variations (map snd enriched_data)"

text \<open>
  \<^verbatim>\<open>FastFoodNutritionScraper.scrape_nutrition_data\<close>: the work list goes through the nutrition scraper, the
  checkpoints are merged with its result, the total is computed, and the merged
  dictionary is returned.
\<close>

definition scrape_nutrition_data ::
  "bool \<Rightarrow> pydict option list \<Rightarrow> ScraperConfig \<Rightarrow> world \<Rightarrow> (string \<times> menu_info) list \<Rightarrow> scraper
   \<Rightarrow> (exn + pydict) \<times> scraper" where
  "scrape_nutrition_data resume_from_checkpoint checkpoint_files cfg w menu_data s =
     (case nutrition_scrape cfg w
             (pending_menu_data resume_from_checkpoint checkpoint_files menu_data) s of
        (scraped, s1) \<Rightarrow>
          (let enriched_data =
                 (if resume_from_checkpoint
                  then dict_merge (load_checkpoints checkpoint_files) scraped
                  else scraped)
           in case total_variations enriched_data of
                Inl e \<Rightarrow> (Inl e, s1)
              | Inr n \<Rightarrow> (Inr enriched_data, s1)))"

section \<open>Concrete inputs\<close>

definition empty_document :: document where
  "empty_document =
     \<lparr>table_item_nutrition_class = None, table_item_nutrition_id = None,
      table_nutrition_class = None, allergens_section = None, h1 = None, title_tag = None,
      dropdown_menu = None, ingredients2 = None, item_photo_src = None, content_img_srcs = [],
      logo_float_src = None, category_blocks = [], rest_item_list = None\<rparr>"

text \<open>``Consecutive underscores collapsed to one'', written by recursion on the text.\<close>

fun collapse_runs :: "string \<Rightarrow> string" where
  "collapse_runs (a # b # cs) =
     (if a = underscore \<and> b = underscore then collapse_runs (b # cs)
      else a # collapse_runs (b # cs))"
| "collapse_runs cs = cs"

text \<open>The trace without the sleeps of the rate limiter.\<close>

definition without_rate_limit :: "event list \<Rightarrow> event list" where
  "without_rate_limit t = filter (\<lambda>e. case e of Sleep RateLimit d \<Rightarrow> False | _ \<Rightarrow> True) t"

text \<open>A scraper that has not started, and a world in which every request is answered
  with the page that a site holds at the URL.\<close>

definition fresh_scraper :: scraper where
  "fresh_scraper =
     \<lparr>stats = \<lparr>total_requests = 0, successful_requests = 0, failed_requests = 0,
                total_retries = 0\<rparr>,
      last_request_time = None, clock = 0, sent = 0, trace = []\<rparr>"

definition default_config :: ScraperConfig where
  "default_config =
     \<lparr>base_url = ''https://site'', max_retries = 3, retry_delay = 1, timeout = 30,
      rate_limit_delay = 1 / 2\<rparr>"

definition serves :: "world \<Rightarrow> (string \<Rightarrow> document) \<Rightarrow> bool" where
  "serves w site = (\<forall>k u. net w k u = Ok (site u))"

text \<open>A world whose first two requests fail, and a world in which every request fails.\<close>

definition flaky_world :: world where
  "flaky_world =
     \<lparr>net = (\<lambda>k u. if k < 2 then Failed ''timed out'' else Ok empty_document),
      latency = (\<lambda>k. 0), urljoin = (\<lambda>base h. base @ h)\<rparr>"

definition dead_world :: world where
  "dead_world =
     \<lparr>net = (\<lambda>k u. Failed ''timed out''), latency = (\<lambda>k. 0),
      urljoin = (\<lambda>base h. base @ h)\<rparr>"

text \<open>Reading an enriched item: its serving sizes and the label of one of them.\<close>

definition serving_sizes_of :: "pydict \<Rightarrow> pyval list" where
  "serving_sizes_of item =
     (case map_of item ''nutritional_values'' of
        Some (PDict nv) \<Rightarrow> (case map_of nv ''serving_sizes'' of Some (PList l) \<Rightarrow> l | _ \<Rightarrow> [])
      | _ \<Rightarrow> [])"

definition size_label_of :: "pyval \<Rightarrow> string option" where
  "size_label_of v =
     (case v of
        PDict d \<Rightarrow> (case map_of d ''size_label'' of Some (PStr l) \<Rightarrow> Some l | _ \<Rightarrow> None)
      | _ \<Rightarrow> None)"

text \<open>``The last element that satisfies \<open>p\<close>, or the default when there is none.''\<close>

definition last_where :: "('a \<Rightarrow> bool) \<Rightarrow> 'a \<Rightarrow> 'a list \<Rightarrow> 'a" where
  "last_where p dflt xs = (if filter p xs = [] then dflt else last (filter p xs))"

text \<open>The state of the scraper after \<^verbatim>\<open>fetch_page(url)\<close>.\<close>

definition after_fetch :: "ScraperConfig \<Rightarrow> world \<Rightarrow> string \<Rightarrow> scraper \<Rightarrow> scraper" where
  "after_fetch cfg w u s = snd (fetch_page cfg w u None None s)"

text \<open>
  A small site: a page without size selector, and a page whose selector has three
  options. The pages of the first two options list allergens and ingredients; the page of
  the third has an allergen section with a paragraph only.
\<close>

definition small_page :: document where
  "small_page =
     empty_document
       \<lparr>allergens_section :=
          Some \<lparr>col_12 = [\<lparr>strong_text = Some ''Contains'', dot_texts = [''Milk'']\<rparr>],
                p_texts = []\<rparr>,
        ingredients2 := Some ''Coffee, Milk''\<rparr>"

definition medium_page :: document where
  "medium_page =
     empty_document
       \<lparr>allergens_section :=
          Some \<lparr>col_12 = [\<lparr>strong_text = Some ''Contains'', dot_texts = [''Milk'', ''Soy'']\<rparr>],
                p_texts = []\<rparr>,
        ingredients2 := Some ''Coffee, Milk, Soy''\<rparr>"

definition large_page :: document where
  "large_page =
     empty_document
       \<lparr>allergens_section :=
          Some \<lparr>col_12 = [], p_texts = [''Allergy information is provided by the restaurant.'']\<rparr>\<rparr>"

definition coffee_page :: document where
  "coffee_page =
     empty_document
       \<lparr>dropdown_menu :=
          Some [(''Small'', ''/coffee-small''), (''Medium'', ''/coffee-medium''),
                (''Large'', ''/coffee-large'')]\<rparr>"

definition shop_site :: "string \<Rightarrow> document" where
  "shop_site u =
     (if u = ''https://site/coffee'' then coffee_page
      else if u = ''https://site/coffee-small'' then small_page
      else if u = ''https://site/coffee-medium'' then medium_page
      else if u = ''https://site/coffee-large'' then large_page
      else empty_document)"

definition shop_world :: world where
  "shop_world =
     \<lparr>net = (\<lambda>k u. Ok (shop_site u)), latency = (\<lambda>k. 0), urljoin = (\<lambda>base h. base @ h)\<rparr>"

definition fries_item :: strdict where
  "fries_item = [(''name'', ''Fries''), (''url'', ''https://site/fries''), (''category'', ''Sides'')]"

definition coffee_item :: strdict where
  "coffee_item =
     [(''name'', ''Coffee''), (''url'', ''https://site/coffee''), (''category'', ''Drinks'')]"

text \<open>
  A list entry is stored under a name by \<^verbatim>\<open>MenuItemScraper.scrape\<close> when it has that name,
  non-empty, and a non-empty URL. The value stored for it is the entry of a successful
  extraction or the placeholder of a failed one.
\<close>

definition stored_under :: "string \<Rightarrow> strdict \<Rightarrow> bool" where
  "stored_under name restaurant =
     (name \<noteq> [] \<and> map_of restaurant ''name'' = Some name
      \<and> (case map_of restaurant ''url'' of Some u \<Rightarrow> u \<noteq> [] | None \<Rightarrow> False))"

definition stored_value :: "ScraperConfig \<Rightarrow> world \<Rightarrow> string \<Rightarrow> string \<Rightarrow> scraper \<Rightarrow> pyval" where
  "stored_value cfg w name url s =
     (case fst (scrape_restaurant_menu cfg w name url s) of
        Inr (logo_url, items) \<Rightarrow> menu_entry url logo_url items
      | Inl e \<Rightarrow> menu_placeholder url e)"

text \<open>A world in which one URL never answers, and three restaurants, two of one name.\<close>

definition half_dead_world :: world where
  "half_dead_world =
     \<lparr>net = (\<lambda>k u. if u = ''https://site/subway'' then Failed ''timed out''
                     else Ok empty_document),
      latency = (\<lambda>k. 0), urljoin = (\<lambda>base h. base @ h)\<rparr>"

definition subway :: strdict where
  "subway = [(''name'', ''Subway''), (''url'', ''https://site/subway'')]"

definition subway_canada :: strdict where
  "subway_canada = [(''name'', ''Subway''), (''url'', ''https://site/subway-canada'')]"

definition kfc :: strdict where
  "kfc = [(''name'', ''KFC''), (''url'', ''https://site/kfc'')]"

text \<open>One checkpoint file and the menu data of two restaurants, one of them checkpointed.\<close>

definition taco_bell_checkpoint :: pydict where
  "taco_bell_checkpoint =
     [(''Taco Bell'',
       PDict [(''url'', PStr ''https://site/taco-bell''), (''restaurant_logo'', PStr ''''),
              (''items'', PList [PDict [(''name'', PStr ''Crunchy Taco'')]])])]"

definition two_menus :: "(string \<times> menu_info) list" where
  "two_menus =
     [(''Taco Bell'',
       \<lparr>info_url = Some ''https://site/taco-bell'', info_restaurant_logo = Some '''',
        info_items = Some [[(''name'', ''Crunchy Taco''), (''url'', ''https://site/crunchy-taco'')]]\<rparr>),
      (''KFC'',
       \<lparr>info_url = Some ''https://site/kfc'', info_restaurant_logo = Some '''',
        info_items = Some []\<rparr>)]"

text \<open>
  The shape of a restaurant's data in a checkpoint file,
  \<^verbatim>\<open>{url, restaurant_logo, items: [...]}\<close>: a dictionary whose \<^verbatim>\<open>items\<close>, when present, are a
  list of dictionaries; in each of them \<^verbatim>\<open>nutritional_values\<close>, when present, is a dictionary
  whose \<^verbatim>\<open>serving_sizes\<close>, when present, are a list.
\<close>

fun item_shape :: "pyval \<Rightarrow> bool" where
  "item_shape (PDict item) =
     (case map_of item ''nutritional_values'' of
        None \<Rightarrow> True
      | Some (PDict nutritional_values) \<Rightarrow>
          (case map_of nutritional_values ''serving_sizes'' of
             None \<Rightarrow> True
           | Some (PList serving_sizes) \<Rightarrow> True
           | Some _ \<Rightarrow> False)
      | Some _ \<Rightarrow> False)"
| "item_shape _ = False"

fun restaurant_shape :: "pyval \<Rightarrow> bool" where
  "restaurant_shape (PDict data) =
     (case map_of data ''items'' of
        None \<Rightarrow> True
      | Some (PList items) \<Rightarrow> list_all item_shape items
      | Some _ \<Rightarrow> False)"
| "restaurant_shape _ = False"

text \<open>
  The menu items of stage 2 (\<^verbatim>\<open>name\<close>, \<^verbatim>\<open>url\<close>, \<^verbatim>\<open>category\<close>) have no key
  \<^verbatim>\<open>nutritional_values\<close>: stage 3 adds it.
\<close>

definition menu_items_plain :: "(string \<times> menu_info) list \<Rightarrow> bool" where
  "menu_items_plain menu_data =
     list_all (\<lambda>(restaurant_name, info).
                 list_all (\<lambda>item. map_of item ''nutritional_values'' = None)
                   (case info_items info of Some l \<Rightarrow> l | None \<Rightarrow> []))
       menu_data"

text \<open>A checkpoint file whose value for a restaurant is a string.\<close>

definition broken_checkpoint :: pydict where
  "broken_checkpoint = [(''Taco Bell'', PStr ''to do'')]"

text \<open>The allergens that \<^verbatim>\<open>process_menu_item\<close> leaves in the item it returns.\<close>

definition allergens_of :: "(exn + pydict) \<times> scraper \<Rightarrow> pyval option" where
  "allergens_of r = (case fst r of Inr item \<Rightarrow> map_of item ''allergens'' | Inl e \<Rightarrow> None)"

section \<open>Properties of the text primitives\<close>

lemma startswith_Nil [simp]: "startswith s []"
  by (simp add: startswith_def)

lemma startswith_Cons_Cons [simp]:
  "startswith (c # cs) (d # ds) = (c = d \<and> startswith cs ds)"
  by (simp add: startswith_def)

lemma startswith_Nil_Cons [simp]: "\<not> startswith [] (d # ds)"
  by (simp add: startswith_def)

lemma startswith_map: "startswith s p \<Longrightarrow> startswith (map f s) (map f p)"
  by (simp add: startswith_def take_map)

lemma collapse_fixed: "\<not> str_in ''__'' s \<Longrightarrow> collapse s = s"
  by (simp add: collapse.simps)

lemma collapse_step: "str_in ''__'' s \<Longrightarrow> collapse s = collapse (replace ''__'' ''_'' s)"
  by (subst collapse.simps) simp

lemma collapse_no_double: "\<not> str_in ''__'' (collapse s)"
proof (induction s rule: collapse.induct)
  case (1 s)
  show ?case
  proof (cases "str_in ''__'' s")
    case True
    then show ?thesis using 1 by (simp add: collapse_step)
  next
    case False
    then show ?thesis by (simp add: collapse_fixed)
  qed
qed

lemmas text_eval =
  to_snake_case_def cleaned_text_def strip_def strip_chars_def lower_def lower_char_def
  isalnum_def isspace_def code_point_def underscore_def collapse_step collapse_fixed char_of_eq_iff

lemma runs_fixed: "\<not> str_in ''__'' s \<Longrightarrow> collapse_runs s = s"
  by (induction s rule: collapse_runs.induct) (auto simp: underscore_def)

lemma runs_replace: "collapse_runs (x # replace ''__'' ''_'' s) = collapse_runs (x # s)"
proof (induction s arbitrary: x rule: length_induct)
  case (1 s)
  show ?case
  proof (cases s)
    case Nil
    then show ?thesis by simp
  next
    case (Cons d ds)
    show ?thesis
    proof (cases "startswith (d # ds) ''__''")
      case True
      then obtain ds' where ds: "d = CHR ''_''" "ds = CHR ''_'' # ds'"
        by (cases ds) auto
      have IH: "collapse_runs (CHR ''_'' # replace ''__'' ''_'' ds') = collapse_runs (CHR ''_'' # ds')"
        using 1 Cons ds by simp
      have rep: "replace ''__'' ''_'' s = CHR ''_'' # replace ''__'' ''_'' ds'"
        using Cons ds by simp
      have "collapse_runs (x # replace ''__'' ''_'' s)
            = collapse_runs (x # CHR ''_'' # replace ''__'' ''_'' ds')"
        by (simp only: rep)
      also have "\<dots> = collapse_runs (x # CHR ''_'' # ds')"
        by (simp only: collapse_runs.simps(1) IH)
      also have "\<dots> = collapse_runs (x # s)"
        using Cons ds by (simp add: underscore_def)
      finally show ?thesis .
    next
      case False
      have IH: "collapse_runs (d # replace ''__'' ''_'' ds) = collapse_runs (d # ds)"
        using 1 Cons by simp
      have rep: "replace ''__'' ''_'' s = d # replace ''__'' ''_'' ds"
        using Cons False by auto
      have "collapse_runs (x # replace ''__'' ''_'' s) = collapse_runs (x # d # replace ''__'' ''_'' ds)"
        by (simp only: rep)
      also have "\<dots> = collapse_runs (x # d # ds)"
        by (simp only: collapse_runs.simps(1) IH)
      finally show ?thesis by (simp only: Cons)
    qed
  qed
qed

lemma runs_replace_whole: "collapse_runs (replace ''__'' ''_'' s) = collapse_runs s"
proof (cases s)
  case Nil
  then show ?thesis by simp
next
  case (Cons d ds)
  show ?thesis
  proof (cases "startswith (d # ds) ''__''")
    case True
    then obtain ds' where ds: "d = CHR ''_''" "ds = CHR ''_'' # ds'"
      by (cases ds) auto
    then have "replace ''__'' ''_'' s = CHR ''_'' # replace ''__'' ''_'' ds'"
      using Cons by simp
    then have "collapse_runs (replace ''__'' ''_'' s) = collapse_runs (CHR ''_'' # ds')"
      using runs_replace [of "CHR ''_''" ds'] by (simp only:)
    then show ?thesis using Cons ds by (simp add: underscore_def)
  next
    case False
    then have "replace ''__'' ''_'' s = d # replace ''__'' ''_'' ds"
      using Cons by auto
    then show ?thesis using Cons runs_replace [of d ds] by (simp only:)
  qed
qed

lemma collapse_eq_runs: "collapse s = collapse_runs s"
proof (induction s rule: collapse.induct)
  case (1 s)
  show ?case
  proof (cases "str_in ''__'' s")
    case True
    then show ?thesis using 1 by (simp add: collapse_step runs_replace_whole)
  next
    case False
    then show ?thesis by (simp add: collapse_fixed runs_fixed)
  qed
qed

lemma str_in_Nil [simp]: "str_in [] s"
  by (cases s) simp_all

lemma str_in_prepend: "str_in sub t \<Longrightarrow> str_in sub (a @ t)"
  by (induction a) simp_all

lemma startswith_append: "startswith t sub \<Longrightarrow> startswith (t @ b) sub"
  using startswith_length [of t sub] by (simp add: startswith_def)

lemma str_in_append: "str_in sub t \<Longrightarrow> str_in sub (t @ b)"
proof (induction t)
  case Nil
  then show ?case by simp
next
  case (Cons c cs)
  then show ?case using startswith_append [of "c # cs" sub b] by auto
qed

lemma strip_chars_decomp:
  "s = takeWhile p s @ strip_chars p s @ rev (takeWhile p (rev (dropWhile p s)))"
proof -
  let ?t = "dropWhile p s"
  have "rev (rev ?t) = rev (takeWhile p (rev ?t) @ dropWhile p (rev ?t))"
    by (simp only: takeWhile_dropWhile_id)
  then have "?t = rev (dropWhile p (rev ?t)) @ rev (takeWhile p (rev ?t))"
    by (simp only: rev_rev_ident rev_append)
  then have "?t = strip_chars p s @ rev (takeWhile p (rev ?t))"
    by (simp only: strip_chars_def)
  moreover have "s = takeWhile p s @ ?t" by simp
  ultimately show ?thesis by simp
qed

lemma str_in_strip_chars: "str_in sub (strip_chars p s) \<Longrightarrow> str_in sub s"
proof -
  assume a: "str_in sub (strip_chars p s)"
  have "str_in sub (takeWhile p s @ strip_chars p s @ rev (takeWhile p (rev (dropWhile p s))))"
    using a by (intro str_in_prepend str_in_append)
  then show ?thesis using strip_chars_decomp [of s p] by simp
qed

lemma set_strip_chars: "set (strip_chars p s) \<subseteq> set s"
proof -
  have "set (strip_chars p s) \<subseteq> set (dropWhile p s)"
    using set_dropWhileD [of _ p "rev (dropWhile p s)"] by (auto simp: strip_chars_def)
  then show ?thesis using set_dropWhileD [of _ p s] by auto
qed

lemma set_collapse_runs: "set (collapse_runs s) \<subseteq> set s"
  by (induction s rule: collapse_runs.induct) auto

lemma strip_chars_ends:
  assumes "strip_chars p s \<noteq> []"
  shows "\<not> p (hd (strip_chars p s)) \<and> \<not> p (last (strip_chars p s))"
proof -
  let ?t = "dropWhile p s"
  let ?u = "dropWhile p (rev ?t)"
  have u: "?u \<noteq> []" using assms by (simp add: strip_chars_def)
  have t: "?t \<noteq> []"
  proof
    assume a: "?t = []"
    have "?u = []" by (simp only: a rev.simps dropWhile.simps)
    with u show False by blast
  qed
  have "last (strip_chars p s) = hd ?u"
    using u by (simp add: strip_chars_def last_rev)
  moreover have "\<not> p (hd ?u)" using u by (rule hd_dropWhile)
  moreover have "last (takeWhile p (rev ?t) @ ?u) = last ?u"
    using u by (rule last_appendR)
  then have "last (rev ?t) = last ?u"
    by (simp only: takeWhile_dropWhile_id)
  then have "hd (strip_chars p s) = hd ?t"
    using u t by (simp add: strip_chars_def hd_rev last_rev)
  moreover have "\<not> p (hd ?t)" using t by (rule hd_dropWhile)
  ultimately show ?thesis by simp
qed

section \<open>Properties of the nutrition table\<close>

lemma lower_startswith: "startswith t p \<Longrightarrow> startswith (lower t) (lower p)"
  unfolding lower_def by (rule startswith_map)

lemma non_data_header_literal:
  assumes "startswith key_text ''amount per serving'' \<or> startswith key_text ''% daily value''
           \<or> startswith key_text ''percent daily''"
  shows "non_data_header key_text"
proof -
  have l1: "lower ''amount per serving'' = ''amount per serving''"
    by (simp add: text_eval)
  have l2: "lower ''% daily value'' = ''% daily value''"
    by (simp add: text_eval)
  have l3: "lower ''percent daily'' = ''percent daily''"
    by (simp add: text_eval)
  from assms show ?thesis
    using lower_startswith [of key_text "''amount per serving''"]
      lower_startswith [of key_text "''% daily value''"]
      lower_startswith [of key_text "''percent daily''"]
    unfolding non_data_header_def l1 l2 l3 by blast
qed

lemma placeholder_strip:
  "value \<in> set placeholder_values \<Longrightarrow> strip value \<in> set placeholder_values"
  by (auto simp: placeholder_values_def text_eval)

lemma row_entry_header:
  "fst (row_texts row) = Some key_text \<Longrightarrow> non_data_header key_text \<Longrightarrow> row_entry row = None"
  by (cases "row_texts row") (auto simp: row_entry_def split: option.splits)

lemma row_entry_placeholder:
  "snd (row_texts row) = Some value \<Longrightarrow> strip value \<in> set placeholder_values \<Longrightarrow>
   row_entry row = None"
  by (cases "row_texts row") (auto simp: row_entry_def split: option.splits)

lemma row_entry_Some:
  "row_entry row = Some (k, v) \<Longrightarrow>
   \<exists>key_text value_text. row_texts row = (Some key_text, Some value_text)
     \<and> k = to_snake_case key_text \<and> v = strip value_text"
  by (cases "row_texts row") (auto simp: row_entry_def split: option.splits if_splits)

lemma to_snake_case_runs:
  "to_snake_case t =
     strip_chars (\<lambda>c. c = underscore)
       (collapse_runs (map (\<lambda>ch. if isalnum ch then ch else underscore) (lower (strip t))))"
  by (simp add: to_snake_case_def cleaned_text_def collapse_eq_runs)

lemma to_snake_case_no_double: "\<not> str_in ''__'' (to_snake_case t)"
  unfolding to_snake_case_def using str_in_strip_chars collapse_no_double by blast

lemma to_snake_case_ends:
  "to_snake_case t \<noteq> [] \<Longrightarrow>
   hd (to_snake_case t) \<noteq> underscore \<and> last (to_snake_case t) \<noteq> underscore"
  unfolding to_snake_case_def by (rule strip_chars_ends)

lemma to_snake_case_chars: "list_all (\<lambda>c. isalnum c \<or> c = underscore) (to_snake_case t)"
proof -
  have "set (to_snake_case t) \<subseteq> set (cleaned_text t)"
    unfolding to_snake_case_def collapse_eq_runs
    using set_strip_chars set_collapse_runs by blast
  moreover have "list_all (\<lambda>c. isalnum c \<or> c = underscore) (cleaned_text t)"
    by (auto simp: cleaned_text_def list_all_iff)
  ultimately show ?thesis by (auto simp: list_all_iff)
qed

text \<open>
  Claim C4. In \<^verbatim>\<open>extract_nutrition_table\<close>, a row with a header cell and at least one data
  cell takes the header's text as its key text and the first data cell's text as its value
  text; a row without a header cell and with at least two data cells takes the first cell
  as key text and the second cell (index 1) as value text, whatever follows it. The entry
  a row adds has the snake-cased key text as key and the stripped value text as value. So
  the row \<^verbatim>\<open>['Protein', '25g', '50%']\<close> yields \<^verbatim>\<open>{"protein": "25g"}\<close> and the row
  \<^verbatim>\<open>['Sodium', '460mg']\<close> yields \<^verbatim>\<open>{"sodium": "460mg"}\<close>.
\<close>

theorem C4_row_parsing:
  "(header_cell row1 = Some h \<and> data_cells row1 = d # ds
      \<longrightarrow> row_texts row1 = (Some h, Some d))
   \<and> (header_cell row2 = None \<and> data_cells row2 = c0 # c1 # cells
      \<longrightarrow> row_texts row2 = (Some c0, Some c1))
   \<and> (row_entry row3 = Some (k, v)
      \<longrightarrow> (\<exists>key_text value_text. row_texts row3 = (Some key_text, Some value_text)
            \<and> k = to_snake_case key_text \<and> v = strip value_text))
   \<and> extract_nutrition_table
        (Some (empty_document\<lparr>table_item_nutrition_class :=
           Some [\<lparr>header_cell = None, data_cells = [''Protein'', ''25g'', ''50%'']\<rparr>]\<rparr>))
      = [(''protein'', ''25g'')]
   \<and> extract_nutrition_table
        (Some (empty_document\<lparr>table_item_nutrition_class :=
           Some [\<lparr>header_cell = None, data_cells = [''Sodium'', ''460mg'']\<rparr>]\<rparr>))
      = [(''sodium'', ''460mg'')]"
proof -
  have a: "header_cell row1 = Some h \<and> data_cells row1 = d # ds
      \<longrightarrow> row_texts row1 = (Some h, Some d)"
    by (simp add: row_texts_def)
  have b: "header_cell row2 = None \<and> data_cells row2 = c0 # c1 # cells
      \<longrightarrow> row_texts row2 = (Some c0, Some c1)"
    by (simp add: row_texts_def)
  have c: "row_entry row3 = Some (k, v)
      \<longrightarrow> (\<exists>key_text value_text. row_texts row3 = (Some key_text, Some value_text)
            \<and> k = to_snake_case key_text \<and> v = strip value_text)"
    using row_entry_Some by blast
  have d: "extract_nutrition_table
        (Some (empty_document\<lparr>table_item_nutrition_class :=
           Some [\<lparr>header_cell = None, data_cells = [''Protein'', ''25g'', ''50%'']\<rparr>]\<rparr>))
      = [(''protein'', ''25g'')]"
    by (simp add: extract_nutrition_table_def with_error_handling_def on_document_def
        select_nutrition_table_def empty_document_def nutrition_row_def row_entry_def
        row_texts_def non_data_header_def placeholder_values_def text_eval)
  have e: "extract_nutrition_table
        (Some (empty_document\<lparr>table_item_nutrition_class :=
           Some [\<lparr>header_cell = None, data_cells = [''Sodium'', ''460mg'']\<rparr>]\<rparr>))
      = [(''sodium'', ''460mg'')]"
    by (simp add: extract_nutrition_table_def with_error_handling_def on_document_def
        select_nutrition_table_def empty_document_def nutrition_row_def row_entry_def
        row_texts_def non_data_header_def placeholder_values_def text_eval)
  from a b c d e show ?thesis by blast
qed

theorem C4_row_parsing_witness:
  "row_texts \<lparr>header_cell = Some ''Calories'', data_cells = [''250'', ''13%'']\<rparr>
     = (Some ''Calories'', Some ''250'')
   \<and> row_texts \<lparr>header_cell = None, data_cells = [''Protein'', ''25g'', ''50%'']\<rparr>
     = (Some ''Protein'', Some ''25g'')
   \<and> row_entry \<lparr>header_cell = None, data_cells = [''Total Fat'', ''9g'']\<rparr>
     = Some (''total_fat'', ''9g'')
   \<and> (\<exists>key_text value_text.
         row_texts \<lparr>header_cell = None, data_cells = [''Total Fat'', ''9g'']\<rparr>
           = (Some key_text, Some value_text)
         \<and> ''total_fat'' = to_snake_case key_text \<and> ''9g'' = strip value_text)"
proof -
  have r3: "row_entry \<lparr>header_cell = None, data_cells = [''Total Fat'', ''9g'']\<rparr>
     = Some (''total_fat'', ''9g'')"
    by (simp add: row_entry_def row_texts_def non_data_header_def placeholder_values_def text_eval)
  show ?thesis
    using r3
      C4_row_parsing [of "\<lparr>header_cell = Some ''Calories'', data_cells = [''250'', ''13%'']\<rparr>"
        "''Calories''" "''250''" "[''13%'']"
        "\<lparr>header_cell = None, data_cells = [''Protein'', ''25g'', ''50%'']\<rparr>"
        "''Protein''" "''25g''" "[''50%'']"
        "\<lparr>header_cell = None, data_cells = [''Total Fat'', ''9g'']\<rparr>"
        "''total_fat''" "''9g''"]
    by simp
qed

text \<open>
  Claim C7. In \<^verbatim>\<open>extract_nutrition_table\<close>, a row whose key text starts with
  \<^verbatim>\<open>"amount per serving"\<close>, \<^verbatim>\<open>"% daily value"\<close> or \<^verbatim>\<open>"percent daily"\<close> (as written, or after
  lower-casing, which is what the source tests) adds no entry; a row whose value text is
  empty or one of the placeholders \<^verbatim>\<open>"?"\<close>, \<^verbatim>\<open>"&nbsp;"\<close>, \<^verbatim>\<open>"-"\<close> (as written, or once stripped)
  adds no entry; and the key of an entry that a row adds is the key text, stripped and
  lower-cased, with every non-alphanumeric character replaced by \<^verbatim>\<open>_\<close>, runs of \<^verbatim>\<open>_\<close>
  collapsed to one, and \<^verbatim>\<open>_\<close> stripped at both ends: it has no two \<^verbatim>\<open>_\<close> in a row, neither
  starts nor ends with \<^verbatim>\<open>_\<close>, and holds only alphanumeric characters and \<^verbatim>\<open>_\<close>.
\<close>

theorem C7_rows_and_keys:
  "(fst (row_texts row1) = Some key_text
      \<and> (startswith key_text ''amount per serving'' \<or> startswith key_text ''% daily value''
         \<or> startswith key_text ''percent daily'' \<or> non_data_header key_text)
      \<longrightarrow> row_entry row1 = None \<and> nutrition_row row1 dict = dict)
   \<and> (snd (row_texts row2) = Some value
      \<and> (value \<in> set placeholder_values \<or> strip value \<in> set placeholder_values)
      \<longrightarrow> row_entry row2 = None \<and> nutrition_row row2 dict = dict)
   \<and> (row_entry row3 = Some (k, v)
      \<longrightarrow> (\<exists>key_text3. fst (row_texts row3) = Some key_text3
            \<and> k = strip_chars (\<lambda>c. c = underscore)
                  (collapse_runs
                     (map (\<lambda>ch. if isalnum ch then ch else underscore) (lower (strip key_text3)))))
          \<and> \<not> str_in ''__'' k
          \<and> (k \<noteq> [] \<longrightarrow> hd k \<noteq> underscore \<and> last k \<noteq> underscore)
          \<and> list_all (\<lambda>c. isalnum c \<or> c = underscore) k)"
proof -
  have a: "fst (row_texts row1) = Some key_text
      \<and> (startswith key_text ''amount per serving'' \<or> startswith key_text ''% daily value''
         \<or> startswith key_text ''percent daily'' \<or> non_data_header key_text)
      \<longrightarrow> row_entry row1 = None \<and> nutrition_row row1 dict = dict"
    using non_data_header_literal [of key_text] row_entry_header [of row1 key_text]
    by (auto simp: nutrition_row_def)
  have b: "snd (row_texts row2) = Some value
      \<and> (value \<in> set placeholder_values \<or> strip value \<in> set placeholder_values)
      \<longrightarrow> row_entry row2 = None \<and> nutrition_row row2 dict = dict"
    using placeholder_strip [of "value"] row_entry_placeholder [of row2 "value"]
    by (auto simp: nutrition_row_def)
  have c: "row_entry row3 = Some (k, v)
      \<longrightarrow> (\<exists>key_text3. fst (row_texts row3) = Some key_text3
            \<and> k = strip_chars (\<lambda>c. c = underscore)
                  (collapse_runs
                     (map (\<lambda>ch. if isalnum ch then ch else underscore) (lower (strip key_text3)))))
          \<and> \<not> str_in ''__'' k
          \<and> (k \<noteq> [] \<longrightarrow> hd k \<noteq> underscore \<and> last k \<noteq> underscore)
          \<and> list_all (\<lambda>c. isalnum c \<or> c = underscore) k"
  proof
    assume "row_entry row3 = Some (k, v)"
    then obtain key_text3 value_text where
      r: "row_texts row3 = (Some key_text3, Some value_text)" and k: "k = to_snake_case key_text3"
      using row_entry_Some by blast
    have "fst (row_texts row3) = Some key_text3" using r by simp
    then show "(\<exists>key_text3. fst (row_texts row3) = Some key_text3
            \<and> k = strip_chars (\<lambda>c. c = underscore)
                  (collapse_runs
                     (map (\<lambda>ch. if isalnum ch then ch else underscore) (lower (strip key_text3)))))
          \<and> \<not> str_in ''__'' k
          \<and> (k \<noteq> [] \<longrightarrow> hd k \<noteq> underscore \<and> last k \<noteq> underscore)
          \<and> list_all (\<lambda>c. isalnum c \<or> c = underscore) k"
      using k to_snake_case_runs [of key_text3] to_snake_case_no_double [of key_text3]
        to_snake_case_ends [of key_text3] to_snake_case_chars [of key_text3]
      by blast
  qed
  from a b c show ?thesis by blast
qed

theorem C7_rows_and_keys_witness:
  "fst (row_texts \<lparr>header_cell = Some ''% Daily Value*'', data_cells = [''13%'']\<rparr>)
     = Some ''% Daily Value*''
   \<and> non_data_header ''% Daily Value*''
   \<and> nutrition_row \<lparr>header_cell = Some ''% Daily Value*'', data_cells = [''13%'']\<rparr>
         [(''calories'', ''250'')] = [(''calories'', ''250'')]
   \<and> snd (row_texts \<lparr>header_cell = None, data_cells = [''Iron'', ''-'']\<rparr>) = Some ''-''
   \<and> ''-'' \<in> set placeholder_values
   \<and> nutrition_row \<lparr>header_cell = None, data_cells = [''Iron'', ''-'']\<rparr>
         [(''calories'', ''250'')] = [(''calories'', ''250'')]
   \<and> row_entry \<lparr>header_cell = None, data_cells = [''Total Fat (g)'', ''9g'']\<rparr>
     = Some (''total_fat_g'', ''9g'')
   \<and> \<not> str_in ''__'' ''total_fat_g''
   \<and> list_all (\<lambda>c. isalnum c \<or> c = underscore) ''total_fat_g''"
proof -
  have h1: "fst (row_texts \<lparr>header_cell = Some ''% Daily Value*'', data_cells = [''13%'']\<rparr>)
     = Some ''% Daily Value*''"
    by (simp add: row_texts_def)
  have h2: "non_data_header ''% Daily Value*''"
    by (simp add: non_data_header_def text_eval)
  have h3: "snd (row_texts \<lparr>header_cell = None, data_cells = [''Iron'', ''-'']\<rparr>) = Some ''-''"
    by (simp add: row_texts_def)
  have h4: "''-'' \<in> set placeholder_values"
    by (simp add: placeholder_values_def)
  have h5: "row_entry \<lparr>header_cell = None, data_cells = [''Total Fat (g)'', ''9g'']\<rparr>
     = Some (''total_fat_g'', ''9g'')"
    by (simp add: row_entry_def row_texts_def non_data_header_def placeholder_values_def text_eval)
  show ?thesis
    using h1 h2 h3 h4 h5
      C7_rows_and_keys
        [of "\<lparr>header_cell = Some ''% Daily Value*'', data_cells = [''13%'']\<rparr>"
          "''% Daily Value*''" "[(''calories'', ''250'')]"
          "\<lparr>header_cell = None, data_cells = [''Iron'', ''-'']\<rparr>" "''-''"
          "\<lparr>header_cell = None, data_cells = [''Total Fat (g)'', ''9g'']\<rparr>"
          "''total_fat_g''" "''9g''"]
    by (simp add: underscore_def isalnum_def code_point_def)
qed

section \<open>Properties of \<^verbatim>\<open>fetch_page\<close>\<close>

lemma range_py_3: "range_py 3 = [0, 1, 2]"
  by (simp add: range_py_def upt_rec)

lemma rate_limiter_wait_sent [simp]: "sent (rate_limiter_wait cfg s) = sent s"
  by (simp add: rate_limiter_wait_def Let_def split: option.splits)

lemma rate_limiter_wait_stats [simp]: "stats (rate_limiter_wait cfg s) = stats s"
  by (simp add: rate_limiter_wait_def Let_def split: option.splits)

lemma rate_limiter_wait_trace [simp]:
  "without_rate_limit (trace (rate_limiter_wait cfg s)) = without_rate_limit (trace s)"
  by (simp add: rate_limiter_wait_def Let_def without_rate_limit_def split: option.splits)

lemma without_rate_limit_append [simp]:
  "without_rate_limit (t @ u) = without_rate_limit t @ without_rate_limit u"
  by (simp add: without_rate_limit_def)

lemma without_rate_limit_Nil [simp]: "without_rate_limit [] = []"
  by (simp add: without_rate_limit_def)

lemma without_rate_limit_Request [simp]:
  "without_rate_limit (Request u # t) = Request u # without_rate_limit t"
  by (simp add: without_rate_limit_def)

lemma without_rate_limit_Sleep [simp]:
  "without_rate_limit (Sleep site d # t) =
     (if site = RateLimit then without_rate_limit t else Sleep site d # without_rate_limit t)"
  by (cases site) (simp_all add: without_rate_limit_def)

lemma fetch_attempts_ok:
  assumes "net w (sent s) url = Ok soup"
  shows "\<exists>s'. fetch_attempts cfg w url retries delay (attempt # rest) s = (Inr (Some soup), s')
           \<and> sent s' = Suc (sent s) \<and> stats s' = record_success (stats s)
           \<and> without_rate_limit (trace s') = without_rate_limit (trace s) @ [Request url]"
  using assms by (simp add: session_get_def Let_def)

lemma fetch_attempts_failed:
  assumes "net w (sent s) url = Failed e" and "attempt < retries - 1" and "0 \<le> delay"
  shows "\<exists>s'. fetch_attempts cfg w url retries delay (attempt # rest) s
               = fetch_attempts cfg w url retries delay rest s'
           \<and> sent s' = Suc (sent s) \<and> stats s' = record_retry (stats s)
           \<and> without_rate_limit (trace s')
               = without_rate_limit (trace s) @ [Request url, Sleep Backoff (delay * 2 ^ nat attempt)]"
proof -
  have nn: "\<not> delay * 2 ^ nat attempt < 0"
    using assms(3) by (simp add: not_less)
  show ?thesis
    using assms(1,2) nn
    apply (simp add: session_get_def time_sleep_def Let_def)
    apply (rule exI)
    apply (rule conjI)
     apply (rule refl)
    apply simp
    done
qed

lemma fetch_attempts_last_failed:
  assumes "net w (sent s) url = Failed e" and "\<not> attempt < retries - 1"
  shows "\<exists>s'. fetch_attempts cfg w url retries delay (attempt # rest) s
               = (Inl (NetworkException url retries e), s')
           \<and> sent s' = Suc (sent s) \<and> stats s' = record_failure (record_retry (stats s))
           \<and> without_rate_limit (trace s') = without_rate_limit (trace s) @ [Request url]
           \<and> last (trace s') = Request url"
  using assms by (simp add: session_get_def Let_def)

text \<open>
  Claim C2. \<^verbatim>\<open>fetch_page\<close> with \<^verbatim>\<open>max_retries = 3\<close> and a base delay \<open>d \<ge> 0\<close>. If the first two
  attempts fail and the third succeeds, it returns the parsed document, and the statistics
  have 2 retries and 1 success more than before and as many failures as before. If all
  three attempts fail, it raises \<^verbatim>\<open>NetworkException\<close> with the last cause, and the statistics
  have 1 failure more than before (and 3 retries, no success). In both runs the scraper
  sends three requests, sleeps \<open>d * 2 ^ 0\<close> between the first and the second and
  \<open>d * 2 ^ 1\<close> between the second and the third (the rate limiter may add its own wait
  before a request), and nothing follows the last failed request.
\<close>

theorem C2_fetch_page_three_attempts:
  assumes "or_else max_retries_arg (max_retries cfg) = 3"
    and "or_else retry_delay_arg (retry_delay cfg) = d"
    and "0 \<le> d"
  shows "(net w (sent s) url = Failed e0 \<and> net w (sent s + 1) url = Failed e1
          \<and> net w (sent s + 2) url = Ok soup
          \<longrightarrow> (\<exists>s'. fetch_page cfg w url max_retries_arg retry_delay_arg s = (Inr (Some soup), s')
                \<and> total_retries (stats s') = total_retries (stats s) + 2
                \<and> successful_requests (stats s') = successful_requests (stats s) + 1
                \<and> failed_requests (stats s') = failed_requests (stats s)
                \<and> total_requests (stats s') = total_requests (stats s) + 1
                \<and> without_rate_limit (trace s')
                    = without_rate_limit (trace s)
                      @ [Request url, Sleep Backoff (d * 2 ^ 0), Request url,
                         Sleep Backoff (d * 2 ^ 1), Request url]))
       \<and> (net w (sent s) url = Failed e0 \<and> net w (sent s + 1) url = Failed e1
          \<and> net w (sent s + 2) url = Failed e2
          \<longrightarrow> (\<exists>s'. fetch_page cfg w url max_retries_arg retry_delay_arg s
                      = (Inl (NetworkException url 3 e2), s')
                \<and> failed_requests (stats s') = failed_requests (stats s) + 1
                \<and> total_retries (stats s') = total_retries (stats s) + 3
                \<and> successful_requests (stats s') = successful_requests (stats s)
                \<and> total_requests (stats s') = total_requests (stats s) + 1
                \<and> without_rate_limit (trace s')
                    = without_rate_limit (trace s)
                      @ [Request url, Sleep Backoff (d * 2 ^ 0), Request url,
                         Sleep Backoff (d * 2 ^ 1), Request url]
                \<and> last (trace s') = Request url))"
proof -
  have page: "fetch_page cfg w url max_retries_arg retry_delay_arg s
              = fetch_attempts cfg w url 3 d [0, 1, 2] s"
    using assms(1,2) by (simp add: fetch_page_def Let_def range_py_3)
  have first_two:
    "\<exists>s2. fetch_attempts cfg w url 3 d [0, 1, 2] s = fetch_attempts cfg w url 3 d [2] s2
       \<and> sent s2 = sent s + 2 \<and> stats s2 = record_retry (record_retry (stats s))
       \<and> without_rate_limit (trace s2)
           = without_rate_limit (trace s)
             @ [Request url, Sleep Backoff (d * 2 ^ 0), Request url, Sleep Backoff (d * 2 ^ 1)]"
    if f0: "net w (sent s) url = Failed e0" and f1: "net w (sent s + 1) url = Failed e1"
  proof -
    obtain s1 where s1:
      "fetch_attempts cfg w url 3 d [0, 1, 2] s = fetch_attempts cfg w url 3 d [1, 2] s1"
      "sent s1 = Suc (sent s)" "stats s1 = record_retry (stats s)"
      "without_rate_limit (trace s1)
       = without_rate_limit (trace s) @ [Request url, Sleep Backoff (d * 2 ^ nat 0)]"
      using fetch_attempts_failed [OF f0, of 0 3 d cfg "[1, 2]"] assms(3) by auto
    have f1': "net w (sent s1) url = Failed e1" using f1 s1(2) by simp
    obtain s2 where s2:
      "fetch_attempts cfg w url 3 d [1, 2] s1 = fetch_attempts cfg w url 3 d [2] s2"
      "sent s2 = Suc (sent s1)" "stats s2 = record_retry (stats s1)"
      "without_rate_limit (trace s2)
       = without_rate_limit (trace s1) @ [Request url, Sleep Backoff (d * 2 ^ nat 1)]"
      using fetch_attempts_failed [OF f1', of 1 3 d cfg "[2]"] assms(3) by auto
    show ?thesis
      using s1 s2 by (intro exI [of _ s2]) simp
  qed
  have a: "\<exists>s'. fetch_page cfg w url max_retries_arg retry_delay_arg s = (Inr (Some soup), s')
                \<and> total_retries (stats s') = total_retries (stats s) + 2
                \<and> successful_requests (stats s') = successful_requests (stats s) + 1
                \<and> failed_requests (stats s') = failed_requests (stats s)
                \<and> total_requests (stats s') = total_requests (stats s) + 1
                \<and> without_rate_limit (trace s')
                    = without_rate_limit (trace s)
                      @ [Request url, Sleep Backoff (d * 2 ^ 0), Request url,
                         Sleep Backoff (d * 2 ^ 1), Request url]"
    if f0: "net w (sent s) url = Failed e0" and f1: "net w (sent s + 1) url = Failed e1"
      and ok: "net w (sent s + 2) url = Ok soup"
  proof -
    obtain s2 where s2:
      "fetch_attempts cfg w url 3 d [0, 1, 2] s = fetch_attempts cfg w url 3 d [2] s2"
      "sent s2 = sent s + 2" "stats s2 = record_retry (record_retry (stats s))"
      "without_rate_limit (trace s2)
           = without_rate_limit (trace s)
             @ [Request url, Sleep Backoff (d * 2 ^ 0), Request url, Sleep Backoff (d * 2 ^ 1)]"
      using first_two [OF f0 f1] by blast
    have ok': "net w (sent s2) url = Ok soup" using ok s2(2) by simp
    obtain s3 where s3:
      "fetch_attempts cfg w url 3 d [2] s2 = (Inr (Some soup), s3)"
      "stats s3 = record_success (stats s2)"
      "without_rate_limit (trace s3) = without_rate_limit (trace s2) @ [Request url]"
      using fetch_attempts_ok [OF ok', of cfg 3 d 2 "[]"] by blast
    show ?thesis
      using page s2 s3
      by (intro exI [of _ s3]) (simp add: record_success_def record_retry_def)
  qed
  have b: "\<exists>s'. fetch_page cfg w url max_retries_arg retry_delay_arg s
                      = (Inl (NetworkException url 3 e2), s')
                \<and> failed_requests (stats s') = failed_requests (stats s) + 1
                \<and> total_retries (stats s') = total_retries (stats s) + 3
                \<and> successful_requests (stats s') = successful_requests (stats s)
                \<and> total_requests (stats s') = total_requests (stats s) + 1
                \<and> without_rate_limit (trace s')
                    = without_rate_limit (trace s)
                      @ [Request url, Sleep Backoff (d * 2 ^ 0), Request url,
                         Sleep Backoff (d * 2 ^ 1), Request url]
                \<and> last (trace s') = Request url"
    if f0: "net w (sent s) url = Failed e0" and f1: "net w (sent s + 1) url = Failed e1"
      and f2: "net w (sent s + 2) url = Failed e2"
  proof -
    obtain s2 where s2:
      "fetch_attempts cfg w url 3 d [0, 1, 2] s = fetch_attempts cfg w url 3 d [2] s2"
      "sent s2 = sent s + 2" "stats s2 = record_retry (record_retry (stats s))"
      "without_rate_limit (trace s2)
           = without_rate_limit (trace s)
             @ [Request url, Sleep Backoff (d * 2 ^ 0), Request url, Sleep Backoff (d * 2 ^ 1)]"
      using first_two [OF f0 f1] by blast
    have f2': "net w (sent s2) url = Failed e2" using f2 s2(2) by simp
    obtain s3 where s3:
      "fetch_attempts cfg w url 3 d [2] s2 = (Inl (NetworkException url 3 e2), s3)"
      "stats s3 = record_failure (record_retry (stats s2))"
      "without_rate_limit (trace s3) = without_rate_limit (trace s2) @ [Request url]"
      "last (trace s3) = Request url"
      using fetch_attempts_last_failed [OF f2', of 2 3 cfg d "[]"] by auto
    show ?thesis
      using page s2 s3
      by (intro exI [of _ s3]) (simp add: record_failure_def record_retry_def)
  qed
  from a b show ?thesis by blast
qed

theorem C2_fetch_page_three_attempts_witness:
  "or_else None (max_retries default_config) = 3
   \<and> or_else None (retry_delay default_config) = 1
   \<and> (\<exists>s'. fetch_page default_config flaky_world ''https://site/a'' None None fresh_scraper
             = (Inr (Some empty_document), s')
          \<and> total_retries (stats s') = 2 \<and> successful_requests (stats s') = 1
          \<and> failed_requests (stats s') = 0
          \<and> without_rate_limit (trace s')
              = [Request ''https://site/a'', Sleep Backoff 1, Request ''https://site/a'',
                 Sleep Backoff 2, Request ''https://site/a''])
   \<and> (\<exists>s'. fetch_page default_config dead_world ''https://site/a'' None None fresh_scraper
             = (Inl (NetworkException ''https://site/a'' 3 ''timed out''), s')
          \<and> failed_requests (stats s') = 1 \<and> total_retries (stats s') = 3
          \<and> successful_requests (stats s') = 0
          \<and> last (trace s') = Request ''https://site/a'')"
proof -
  have h1: "or_else None (max_retries default_config) = 3"
    by (simp add: or_else_def default_config_def)
  have h2: "or_else None (retry_delay default_config) = 1"
    by (simp add: or_else_def default_config_def)
  have h3: "(0::real) \<le> 1" by simp
  show ?thesis
    using h1 h2
      C2_fetch_page_three_attempts [OF h1 h2 h3, where w = flaky_world and s = fresh_scraper
        and url = "''https://site/a''" and ?e0.0 = "''timed out''" and ?e1.0 = "''timed out''"
        and soup = empty_document and ?e2.0 = "''timed out''"]
      C2_fetch_page_three_attempts [OF h1 h2 h3, where w = dead_world and s = fresh_scraper
        and url = "''https://site/a''" and ?e0.0 = "''timed out''" and ?e1.0 = "''timed out''"
        and soup = empty_document and ?e2.0 = "''timed out''"]
    by (simp add: flaky_world_def dead_world_def fresh_scraper_def) blast
qed

section \<open>Properties of \<^verbatim>\<open>process_menu_item\<close>\<close>

lemma map_fst_pydict_of [simp]: "map fst (pydict_of item) = map fst item"
  by (induction item) (auto simp: pydict_of_def)

lemma map_of_pydict_of [simp]: "map_of (pydict_of item) k = map_option PStr (map_of item k)"
  by (induction item) (auto simp: pydict_of_def)

lemma process_menu_item_Inr: "\<exists>v s'. process_menu_item cfg w item s = (Inr v, s')"
  by (cases "process_menu_item_body cfg w item s") (simp add: process_menu_item_def)

text \<open>
  Claim C10. For an item whose \<^verbatim>\<open>url\<close> key is missing or maps to the empty string,
  \<^verbatim>\<open>process_menu_item\<close> returns the item as it is: the scraper's state is unchanged (no
  request is sent, no sleep), and the returned dictionary has the keys and the values of
  the item, so none of \<^verbatim>\<open>nutritional_values\<close>, \<^verbatim>\<open>allergens\<close>, \<^verbatim>\<open>ingredients\<close> is added.
\<close>

theorem C10_item_without_url:
  assumes "map_of item ''url'' = None \<or> map_of item ''url'' = Some ''''"
  shows "process_menu_item cfg w item s = (Inr (pydict_of item), s)
         \<and> process_menu_item_body cfg w item s = (Inr (pydict_of item), s)
         \<and> map fst (pydict_of item) = map fst item
         \<and> (\<forall>k. map_of (pydict_of item) k = map_option PStr (map_of item k))"
proof -
  have "get_str item ''url'' '''' = []"
    using assms by (auto simp: get_str_def)
  then have "process_menu_item_body cfg w item s = (Inr (pydict_of item), s)"
    by (simp add: process_menu_item_body_def Let_def)
  then show ?thesis
    by (simp add: process_menu_item_def with_error_handling_def)
qed

theorem C10_item_without_url_witness:
  "map_of [(''name'', ''Fries''), (''category'', ''Sides'')] ''url'' = None
   \<and> process_menu_item default_config dead_world
        [(''name'', ''Fries''), (''category'', ''Sides'')] fresh_scraper
      = (Inr [(''name'', PStr ''Fries''), (''category'', PStr ''Sides'')], fresh_scraper)
   \<and> map_of [(''name'', ''Fries''), (''url'', ''''), (''category'', ''Sides'')] ''url'' = Some ''''
   \<and> process_menu_item default_config dead_world
        [(''name'', ''Fries''), (''url'', ''''), (''category'', ''Sides'')] fresh_scraper
      = (Inr [(''name'', PStr ''Fries''), (''url'', PStr ''''), (''category'', PStr ''Sides'')],
         fresh_scraper)"
  using
    C10_item_without_url [of "[(''name'', ''Fries''), (''category'', ''Sides'')]"
      default_config dead_world fresh_scraper]
    C10_item_without_url [of "[(''name'', ''Fries''), (''url'', ''''), (''category'', ''Sides'')]"
      default_config dead_world fresh_scraper]
  by (simp add: pydict_of_def)

text \<open>
  Claim C1 does not hold of the code. \<^verbatim>\<open>process_menu_item\<close> is wrapped by
  \<^verbatim>\<open>with_error_handling(default_return={})\<close>, so an exception of its body never reaches the
  \<^verbatim>\<open>except\<close> branch of \<^verbatim>\<open>scrape\<close> that builds the placeholder: the item is emitted as the empty
  dictionary. Here every request fails; the body raises \<^verbatim>\<open>NetworkException\<close>, and the item
  \<^verbatim>\<open>{"name": "Crunchy Taco", "url": ..., "category": "Tacos"}\<close> comes out as \<^verbatim>\<open>{}\<close>, not as
  the placeholder that keeps its keys.
\<close>

theorem C1_failed_item_emitted_empty:
  "fst (process_menu_item_body default_config dead_world
          [(''name'', ''Crunchy Taco''), (''url'', ''https://site/crunchy-taco''),
           (''category'', ''Tacos'')] fresh_scraper)
     = Inl (NetworkException ''https://site/crunchy-taco'' 3 ''timed out'')
   \<and> fst (nutrition_scrape default_config dead_world
          [(''Taco Bell'',
            \<lparr>info_url = Some ''https://site/taco-bell'', info_restaurant_logo = Some '''',
             info_items =
               Some [[(''name'', ''Crunchy Taco''), (''url'', ''https://site/crunchy-taco''),
                      (''category'', ''Tacos'')]]\<rparr>)]
          fresh_scraper)
     = [(''Taco Bell'',
         PDict [(''url'', PStr ''https://site/taco-bell''), (''restaurant_logo'', PStr ''''),
                (''items'', PList [PDict []])])]
   \<and> map fst (placeholder_item
          [(''name'', ''Crunchy Taco''), (''url'', ''https://site/crunchy-taco''),
           (''category'', ''Tacos'')]
          (NetworkException ''https://site/crunchy-taco'' 3 ''timed out''))
     = [''name'', ''url'', ''category'', ''nutritional_values'', ''allergens'', ''error'']"
proof -
  let ?item = "[(''name'', ''Crunchy Taco''), (''url'', ''https://site/crunchy-taco''),
           (''category'', ''Tacos'')]"
  have f: "\<exists>s'. fetch_page default_config dead_world ''https://site/crunchy-taco'' None None
             fresh_scraper
           = (Inl (NetworkException ''https://site/crunchy-taco'' 3 ''timed out''), s')"
  proof -
    have h1: "or_else None (max_retries default_config) = 3"
      by (simp add: or_else_def default_config_def)
    have h2: "or_else None (retry_delay default_config) = 1"
      by (simp add: or_else_def default_config_def)
    have h3: "(0::real) \<le> 1" by simp
    have "\<exists>s'. fetch_attempts default_config dead_world ''https://site/crunchy-taco'' 3 1
              [0, 1, 2] fresh_scraper
            = (Inl (NetworkException ''https://site/crunchy-taco'' 3 ''timed out''), s')"
      by (simp add: dead_world_def session_get_def time_sleep_def Let_def)
    then show ?thesis
      using h1 h2 by (simp add: fetch_page_def Let_def range_py_3)
  qed
  then obtain s' where s': "fetch_page default_config dead_world ''https://site/crunchy-taco''
      None None fresh_scraper
    = (Inl (NetworkException ''https://site/crunchy-taco'' 3 ''timed out''), s')"
    by blast
  have body: "process_menu_item_body default_config dead_world ?item fresh_scraper
     = (Inl (NetworkException ''https://site/crunchy-taco'' 3 ''timed out''), s')"
    using s' by (simp add: process_menu_item_body_def get_str_def Let_def)
  have item: "process_menu_item default_config dead_world ?item fresh_scraper = (Inr [], s')"
    using body by (simp add: process_menu_item_def with_error_handling_def)
  have a: "fst (process_menu_item_body default_config dead_world ?item fresh_scraper)
     = Inl (NetworkException ''https://site/crunchy-taco'' 3 ''timed out'')"
    using body by simp
  have b: "fst (nutrition_scrape default_config dead_world
          [(''Taco Bell'',
            \<lparr>info_url = Some ''https://site/taco-bell'', info_restaurant_logo = Some '''',
             info_items = Some [?item]\<rparr>)]
          fresh_scraper)
     = [(''Taco Bell'',
         PDict [(''url'', PStr ''https://site/taco-bell''), (''restaurant_logo'', PStr ''''),
                (''items'', PList [PDict []])])]"
    using item by (simp add: nutrition_scrape_def)
  have c: "map fst (placeholder_item ?item
          (NetworkException ''https://site/crunchy-taco'' 3 ''timed out''))
     = [''name'', ''url'', ''category'', ''nutritional_values'', ''allergens'', ''error'']"
    by (simp add: placeholder_item_def pydict_of_def)
  from a b c show ?thesis by blast
qed

section \<open>Items on a site that answers every request\<close>

lemma range_py_pos: "1 \<le> n \<Longrightarrow> \<exists>rest. range_py n = 0 # rest"
proof -
  assume "1 \<le> n"
  then have "0 < nat n" by simp
  then have "[0..<nat n] = 0 # [Suc 0..<nat n]" by (rule upt_conv_Cons)
  then show ?thesis by (simp add: range_py_def)
qed

lemma fetch_page_serves:
  assumes "serves w site" and "1 \<le> max_retries cfg"
  shows "fetch_page cfg w u None None s = (Inr (Some (site u)), after_fetch cfg w u s)"
    and "without_rate_limit (trace (after_fetch cfg w u s))
         = without_rate_limit (trace s) @ [Request u]"
proof -
  obtain rest where r: "range_py (max_retries cfg) = 0 # rest"
    using range_py_pos assms(2) by blast
  have ok: "net w (sent s) u = Ok (site u)"
    using assms(1) by (simp add: serves_def)
  obtain s' where s': "fetch_page cfg w u None None s = (Inr (Some (site u)), s')"
    "without_rate_limit (trace s') = without_rate_limit (trace s) @ [Request u]"
    using fetch_attempts_ok [OF ok, where cfg = cfg and retries = "max_retries cfg"
        and delay = "retry_delay cfg" and attempt = 0 and rest = rest]
    by (auto simp: fetch_page_def or_else_def Let_def r)
  show "fetch_page cfg w u None None s = (Inr (Some (site u)), after_fetch cfg w u s)"
    using s' by (simp add: after_fetch_def)
  show "without_rate_limit (trace (after_fetch cfg w u s))
         = without_rate_limit (trace s) @ [Request u]"
    using s' by (simp add: after_fetch_def)
qed

lemma extract_item_nutrition_data_serves:
  assumes "serves w site" and "1 \<le> max_retries cfg"
  shows "extract_item_nutrition_data cfg w u label fallback s
         = (Inr (nutrition_data_of_page cfg w (Some (site u)) label fallback),
            after_fetch cfg w u s)"
  by (simp add: extract_item_nutrition_data_def fetch_page_serves [OF assms])

lemma nutrition_data_parts:
  "nutrition_data_of_page cfg w doc label fallback =
     (\<lparr>size_label = (if label \<noteq> [] then label
                      else if extract_title doc \<noteq> [] then extract_title doc else fallback),
       nutrition = extract_nutrition_table doc\<rparr>,
      extract_allergens doc, extract_ingredients doc,
      extract_item_image (urljoin w) (base_url cfg) doc)"
  by (simp add: nutrition_data_of_page_def Let_def)

lemma last_where_Nil [simp]: "last_where p dflt [] = dflt"
  by (simp add: last_where_def)

lemma last_where_Cons:
  "last_where p dflt (x # xs) = last_where p (if p x then x else dflt) xs"
  by (simp add: last_where_def)

text \<open>The serving-size dictionary of one option, as the loop appends it.\<close>

lemma size_label_of_serving_dict [simp]:
  "size_label_of (serving_dict serving_size image_url) = Some (size_label serving_size)"
  by (simp add: size_label_of_def serving_dict_def serving_size_dict_def)

lemma process_options_serves:
  assumes "serves w site" and "1 \<le> max_retries cfg"
  shows "fst (process_options cfg w item_name options (sizes, agg_a, agg_i) s)
         = Inr (sizes @ map (\<lambda>opt.
                          serving_dict
                            (fst (nutrition_data_of_page cfg w (Some (site (option_url opt)))
                                    (option_title opt) item_name))
                            (extract_item_image (urljoin w) (base_url cfg)
                               (Some (site (option_url opt))))) options,
                last_where has_allergen_lists agg_a
                  (map (\<lambda>opt. extract_allergens (Some (site (option_url opt)))) options),
                last_where (\<lambda>t. t \<noteq> []) agg_i
                  (map (\<lambda>opt. extract_ingredients (Some (site (option_url opt)))) options))"
  by (induction options arbitrary: sizes agg_a agg_i s)
    (simp_all add: extract_item_nutrition_data_serves [OF assms] nutrition_data_parts
      last_where_Cons)

lemma process_options_trace:
  assumes "serves w site" and "1 \<le> max_retries cfg"
  shows "without_rate_limit (trace (snd (process_options cfg w item_name options acc s)))
         = without_rate_limit (trace s) @ map (\<lambda>opt. Request (option_url opt)) options"
proof (induction options arbitrary: acc s)
  case Nil
  then show ?case by simp
next
  case (Cons opt options)
  obtain sizes agg_a agg_i where acc: "acc = (sizes, agg_a, agg_i)"
    by (cases acc) auto
  show ?case
    unfolding acc
    by (simp add: extract_item_nutrition_data_serves [OF assms] nutrition_data_parts Cons
        fetch_page_serves(2) [OF assms])
qed

lemma enrich_item_allergens [simp]:
  "map_of (enrich_item item sizes a i) ''allergens'' = Some (PDict (allergens_dict a))"
  by (simp add: enrich_item_def update_conv')

lemma enrich_item_ingredients [simp]:
  "map_of (enrich_item item sizes a i) ''ingredients'' = Some (PStr i)"
  by (simp add: enrich_item_def update_conv')

lemma enrich_item_serving_sizes [simp]:
  "serving_sizes_of (enrich_item item sizes a i) = sizes"
  by (simp add: enrich_item_def update_conv' serving_sizes_of_def)

lemma process_menu_item_single:
  assumes "serves w site" and "1 \<le> max_retries cfg" and "0 \<le> rate_limit_delay cfg"
    and "get_str item ''url'' '''' = url" and "url \<noteq> []"
    and "extract_dropdown_options (urljoin w) (base_url cfg) (Some (site url)) = []"
  shows "\<exists>s'. process_menu_item cfg w item s
           = (Inr (enrich_item (pydict_of item)
                     [serving_dict
                        (fst (nutrition_data_of_page cfg w (Some (site url)) ''1 serving''
                                (get_str item ''name'' '''')))
                        (extract_item_image (urljoin w) (base_url cfg) (Some (site url)))]
                     (extract_allergens (Some (site url)))
                     (extract_ingredients (Some (site url)))), s')
         \<and> without_rate_limit (trace s')
             = without_rate_limit (trace s)
               @ [Request url, Request url, Sleep ItemPause (rate_limit_delay cfg)]"
  using assms(3-6)
  by (simp add: process_menu_item_def process_menu_item_body_def Let_def
      fetch_page_serves [OF assms(1,2)] extract_item_nutrition_data_serves [OF assms(1,2)]
      nutrition_data_parts time_sleep_def with_error_handling_def)

lemma process_menu_item_options:
  assumes "serves w site" and "1 \<le> max_retries cfg" and "0 \<le> rate_limit_delay cfg"
    and "get_str item ''url'' '''' = url" and "url \<noteq> []"
    and "extract_dropdown_options (urljoin w) (base_url cfg) (Some (site url)) = options"
    and "options \<noteq> []"
  shows "\<exists>s'. process_menu_item cfg w item s
           = (Inr (enrich_item (pydict_of item)
                     (map (\<lambda>opt.
                          serving_dict
                            (fst (nutrition_data_of_page cfg w (Some (site (option_url opt)))
                                    (option_title opt) (get_str item ''name'' '''')))
                            (extract_item_image (urljoin w) (base_url cfg)
                               (Some (site (option_url opt))))) options)
                     (last_where has_allergen_lists ScrapedAllergens_default
                        (map (\<lambda>opt. extract_allergens (Some (site (option_url opt)))) options))
                     (last_where (\<lambda>t. t \<noteq> []) ''''
                        (map (\<lambda>opt. extract_ingredients (Some (site (option_url opt)))) options))),
              s')
         \<and> without_rate_limit (trace s')
             = without_rate_limit (trace s)
               @ Request url # map (\<lambda>opt. Request (option_url opt)) options
               @ [Sleep ItemPause (rate_limit_delay cfg)]"
proof -
  let ?s1 = "after_fetch cfg w url s"
  let ?name = "get_str item ''name'' ''''"
  obtain r s2 where po:
    "process_options cfg w ?name options ([], ScrapedAllergens_default, '''') ?s1 = (r, s2)"
    by (cases "process_options cfg w ?name options ([], ScrapedAllergens_default, '''') ?s1")
  have r: "r = Inr (map (\<lambda>opt.
                          serving_dict
                            (fst (nutrition_data_of_page cfg w (Some (site (option_url opt)))
                                    (option_title opt) ?name))
                            (extract_item_image (urljoin w) (base_url cfg)
                               (Some (site (option_url opt))))) options,
                last_where has_allergen_lists ScrapedAllergens_default
                  (map (\<lambda>opt. extract_allergens (Some (site (option_url opt)))) options),
                last_where (\<lambda>t. t \<noteq> []) ''''
                  (map (\<lambda>opt. extract_ingredients (Some (site (option_url opt)))) options))"
    using process_options_serves [OF assms(1,2), of ?name options "[]" ScrapedAllergens_default
        "''''" ?s1] po
    by simp
  have t2: "without_rate_limit (trace s2)
            = without_rate_limit (trace s) @ Request url
              # map (\<lambda>opt. Request (option_url opt)) options"
    using process_options_trace [OF assms(1,2), of ?name options
        "([], ScrapedAllergens_default, '''')" ?s1] po
    by (simp add: fetch_page_serves(2) [OF assms(1,2)])
  show ?thesis
    using assms(3-7) po r t2
    by (simp add: process_menu_item_def process_menu_item_body_def Let_def
        fetch_page_serves [OF assms(1,2)] time_sleep_def with_error_handling_def)
qed

section \<open>Properties of the serving size options\<close>

lemma unique_by_url_extends: "\<exists>ys. unique_by_url opts seen acc = acc @ ys"
proof (induction opts arbitrary: seen acc)
  case Nil
  then show ?case by simp
next
  case (Cons opt opts)
  show ?case
  proof (cases "option_url opt \<in> seen")
    case True
    then show ?thesis using Cons [of seen acc] by simp
  next
    case False
    obtain ys where "unique_by_url opts (insert (option_url opt) seen) (acc @ [opt])
                     = (acc @ [opt]) @ ys"
      using Cons [of "insert (option_url opt) seen" "acc @ [opt]"] by blast
    then show ?thesis using False by simp
  qed
qed

lemma unique_by_url_nonempty: "opts \<noteq> [] \<Longrightarrow> unique_by_url opts {} [] \<noteq> []"
proof (cases opts)
  case Nil
  then show "opts \<noteq> [] \<Longrightarrow> unique_by_url opts {} [] \<noteq> []" by simp
next
  case (Cons opt rest)
  obtain ys where "unique_by_url rest {option_url opt} [opt] = [opt] @ ys"
    using unique_by_url_extends [of rest "{option_url opt}" "[opt]"] by blast
  then show "opts \<noteq> [] \<Longrightarrow> unique_by_url opts {} [] \<noteq> []"
    using Cons by simp
qed

lemma unique_by_url_all:
  "distinct (map option_url opts) \<Longrightarrow> set (map option_url opts) \<inter> seen = {} \<Longrightarrow>
   unique_by_url opts seen acc = acc @ opts"
proof (induction opts arbitrary: seen acc)
  case Nil
  then show ?case by simp
next
  case (Cons opt opts)
  have "unique_by_url opts (insert (option_url opt) seen) (acc @ [opt]) = (acc @ [opt]) @ opts"
    using Cons.prems by (intro Cons.IH) auto
  then show ?case using Cons.prems by simp
qed

lemma unique_by_url_distinct:
  "distinct (map option_url acc) \<Longrightarrow> set (map option_url acc) \<subseteq> seen \<Longrightarrow>
   distinct (map option_url (unique_by_url opts seen acc))"
proof (induction opts arbitrary: seen acc)
  case Nil
  then show ?case by simp
next
  case (Cons opt opts)
  show ?case
  proof (cases "option_url opt \<in> seen")
    case True
    then show ?thesis using Cons by simp
  next
    case False
    have "distinct (map option_url (unique_by_url opts (insert (option_url opt) seen) (acc @ [opt])))"
      using Cons.prems False by (intro Cons.IH) auto
    then show ?thesis using False by simp
  qed
qed

lemma unique_by_url_subset: "set (unique_by_url opts seen acc) \<subseteq> set acc \<union> set opts"
proof (induction opts arbitrary: seen acc)
  case Nil
  then show ?case by simp
next
  case (Cons opt opts)
  show ?case
    using Cons [of seen acc] Cons [of "insert (option_url opt) seen" "acc @ [opt]"]
    by (cases "option_url opt \<in> seen") auto
qed

section \<open>Serving variants of an item\<close>

lemma dropdown_options_of_anchors:
  "dropdown_menu page = Some anchors \<Longrightarrow>
   extract_dropdown_options uj base (Some page)
   = unique_by_url
       (map (\<lambda>a. \<lparr>option_title = fst a, option_url = uj base (snd a)\<rparr>) anchors) {} []"
  by (simp add: extract_dropdown_options_def with_error_handling_def on_document_def
      case_prod_unfold)

lemma dropdown_options_absent:
  "dropdown_menu page = None \<or> dropdown_menu page = Some [] \<Longrightarrow>
   extract_dropdown_options uj base (Some page) = []"
  by (auto simp: extract_dropdown_options_def with_error_handling_def on_document_def)

lemma option_labels:
  assumes "list_all (\<lambda>opt. option_title opt \<noteq> []) options"
  shows "map size_label_of
           (map (\<lambda>opt.
                  serving_dict
                    (fst (nutrition_data_of_page cfg w (Some (site (option_url opt)))
                            (option_title opt) item_name))
                    (extract_item_image (urljoin w) (base_url cfg)
                       (Some (site (option_url opt))))) options)
         = map (\<lambda>opt. Some (option_title opt)) options"
  using assms by (induction options) (simp_all add: nutrition_data_parts)

text \<open>
  Claim C5. On a site that answers every request (and with at least one attempt per fetch
  and a non-negative pause), \<^verbatim>\<open>process_menu_item\<close> of an item with a non-empty URL gives:
  for a page without dropdown selector (or with a selector without anchors), exactly one
  serving variant, labelled \<^verbatim>\<open>"1 serving"\<close>, read from the item's own URL (requested twice:
  once for the selector, once for the data); for a page whose selector has \<open>N \<ge> 1\<close>
  options with distinct URLs and non-empty texts, exactly \<open>N\<close> variants, labelled with the
  options' texts in order, each read from its option's URL; and in general, for non-empty
  texts, one variant per option that \<^verbatim>\<open>extract_dropdown_options\<close> keeps, whose URLs are
  distinct.
\<close>

theorem C5_serving_variants:
  assumes "serves w site" and "1 \<le> max_retries cfg" and "0 \<le> rate_limit_delay cfg"
    and "get_str item ''url'' '''' = url" and "url \<noteq> []"
  shows
    "(dropdown_menu (site url) = None \<or> dropdown_menu (site url) = Some []
        \<longrightarrow> (\<exists>item' s'. process_menu_item cfg w item s = (Inr item', s')
              \<and> map size_label_of (serving_sizes_of item') = [Some ''1 serving'']
              \<and> without_rate_limit (trace s')
                  = without_rate_limit (trace s)
                    @ [Request url, Request url, Sleep ItemPause (rate_limit_delay cfg)]))
     \<and> (dropdown_menu (site url) = Some anchors \<and> anchors \<noteq> []
          \<and> list_all (\<lambda>a. fst a \<noteq> []) anchors
          \<and> distinct (map (\<lambda>a. urljoin w (base_url cfg) (snd a)) anchors)
        \<longrightarrow> (\<exists>item' s'. process_menu_item cfg w item s = (Inr item', s')
              \<and> length (serving_sizes_of item') = length anchors
              \<and> map size_label_of (serving_sizes_of item') = map (\<lambda>a. Some (fst a)) anchors
              \<and> without_rate_limit (trace s')
                  = without_rate_limit (trace s)
                    @ Request url # map (\<lambda>a. Request (urljoin w (base_url cfg) (snd a))) anchors
                    @ [Sleep ItemPause (rate_limit_delay cfg)]))
     \<and> (dropdown_menu (site url) = Some anchors \<and> anchors \<noteq> []
          \<and> list_all (\<lambda>a. fst a \<noteq> []) anchors
        \<longrightarrow> (\<exists>item' s'. process_menu_item cfg w item s = (Inr item', s')
              \<and> map size_label_of (serving_sizes_of item')
                  = map (\<lambda>opt. Some (option_title opt))
                      (extract_dropdown_options (urljoin w) (base_url cfg) (Some (site url)))
              \<and> distinct (map option_url
                  (extract_dropdown_options (urljoin w) (base_url cfg) (Some (site url))))))"
proof -
  let ?mk = "\<lambda>a. \<lparr>option_title = fst a, option_url = urljoin w (base_url cfg) (snd a)\<rparr>"
  let ?options = "extract_dropdown_options (urljoin w) (base_url cfg) (Some (site url))"
  have single: "\<exists>item' s'. process_menu_item cfg w item s = (Inr item', s')
              \<and> map size_label_of (serving_sizes_of item') = [Some ''1 serving'']
              \<and> without_rate_limit (trace s')
                  = without_rate_limit (trace s)
                    @ [Request url, Request url, Sleep ItemPause (rate_limit_delay cfg)]"
    if "dropdown_menu (site url) = None \<or> dropdown_menu (site url) = Some []"
  proof -
    have none: "?options = []"
      using that by (rule dropdown_options_absent)
    obtain s' where s': "process_menu_item cfg w item s
           = (Inr (enrich_item (pydict_of item)
                     [serving_dict
                        (fst (nutrition_data_of_page cfg w (Some (site url)) ''1 serving''
                                (get_str item ''name'' '''')))
                        (extract_item_image (urljoin w) (base_url cfg) (Some (site url)))]
                     (extract_allergens (Some (site url)))
                     (extract_ingredients (Some (site url)))), s')"
      "without_rate_limit (trace s')
             = without_rate_limit (trace s)
               @ [Request url, Request url, Sleep ItemPause (rate_limit_delay cfg)]"
      using process_menu_item_single [OF assms none] by blast
    show ?thesis
      using s' by (simp add: nutrition_data_parts)
  qed
  have general: "\<exists>item' s'. process_menu_item cfg w item s = (Inr item', s')
              \<and> length (serving_sizes_of item') = length ?options
              \<and> map size_label_of (serving_sizes_of item')
                  = map (\<lambda>opt. Some (option_title opt)) ?options
              \<and> distinct (map option_url ?options)
              \<and> without_rate_limit (trace s')
                  = without_rate_limit (trace s)
                    @ Request url # map (\<lambda>opt. Request (option_url opt)) ?options
                    @ [Sleep ItemPause (rate_limit_delay cfg)]"
    if d: "dropdown_menu (site url) = Some anchors" and ne: "anchors \<noteq> []"
      and texts: "list_all (\<lambda>a. fst a \<noteq> []) anchors"
  proof -
    have opts: "?options = unique_by_url (map ?mk anchors) {} []"
      using d by (rule dropdown_options_of_anchors)
    have nonempty: "?options \<noteq> []"
      unfolding opts using ne by (intro unique_by_url_nonempty) simp
    have dist: "distinct (map option_url ?options)"
      unfolding opts by (intro unique_by_url_distinct) simp_all
    have "set ?options \<subseteq> set (map ?mk anchors)"
      unfolding opts using unique_by_url_subset [of "map ?mk anchors" "{}" "[]"] by simp
    then have titles: "list_all (\<lambda>opt. option_title opt \<noteq> []) ?options"
      using texts by (fastforce simp: list_all_iff)
    obtain s' where s': "process_menu_item cfg w item s
           = (Inr (enrich_item (pydict_of item)
                     (map (\<lambda>opt.
                          serving_dict
                            (fst (nutrition_data_of_page cfg w (Some (site (option_url opt)))
                                    (option_title opt) (get_str item ''name'' '''')))
                            (extract_item_image (urljoin w) (base_url cfg)
                               (Some (site (option_url opt))))) ?options)
                     (last_where has_allergen_lists ScrapedAllergens_default
                        (map (\<lambda>opt. extract_allergens (Some (site (option_url opt)))) ?options))
                     (last_where (\<lambda>t. t \<noteq> []) ''''
                        (map (\<lambda>opt. extract_ingredients (Some (site (option_url opt)))) ?options))),
              s')"
      "without_rate_limit (trace s')
             = without_rate_limit (trace s)
               @ Request url # map (\<lambda>opt. Request (option_url opt)) ?options
               @ [Sleep ItemPause (rate_limit_delay cfg)]"
      using process_menu_item_options [OF assms refl nonempty] by blast
    show ?thesis
      using s' dist option_labels [OF titles, of cfg w site "get_str item ''name'' ''''"]
      by simp
  qed
  have all: "\<exists>item' s'. process_menu_item cfg w item s = (Inr item', s')
              \<and> length (serving_sizes_of item') = length anchors
              \<and> map size_label_of (serving_sizes_of item') = map (\<lambda>a. Some (fst a)) anchors
              \<and> without_rate_limit (trace s')
                  = without_rate_limit (trace s)
                    @ Request url # map (\<lambda>a. Request (urljoin w (base_url cfg) (snd a))) anchors
                    @ [Sleep ItemPause (rate_limit_delay cfg)]"
    if d: "dropdown_menu (site url) = Some anchors" and ne: "anchors \<noteq> []"
      and texts: "list_all (\<lambda>a. fst a \<noteq> []) anchors"
      and urls: "distinct (map (\<lambda>a. urljoin w (base_url cfg) (snd a)) anchors)"
  proof -
    have "distinct (map option_url (map ?mk anchors))"
      using urls by (simp add: comp_def)
    then have "unique_by_url (map ?mk anchors) {} [] = [] @ map ?mk anchors"
      by (intro unique_by_url_all) simp_all
    then have opts: "?options = map ?mk anchors"
      using d by (simp add: dropdown_options_of_anchors)
    show ?thesis
      using general [OF d ne texts] unfolding opts by (simp add: comp_def) blast
  qed
  from single general all show ?thesis by blast
qed

theorem C5_serving_variants_witness:
  "serves shop_world shop_site
   \<and> dropdown_menu (shop_site ''https://site/fries'') = None
   \<and> (\<exists>item' s'. process_menu_item default_config shop_world fries_item fresh_scraper
                     = (Inr item', s')
          \<and> map size_label_of (serving_sizes_of item') = [Some ''1 serving'']
          \<and> without_rate_limit (trace s')
              = [Request ''https://site/fries'', Request ''https://site/fries'',
                 Sleep ItemPause (1 / 2)])
   \<and> dropdown_menu (shop_site ''https://site/coffee'')
       = Some [(''Small'', ''/coffee-small''), (''Medium'', ''/coffee-medium''),
               (''Large'', ''/coffee-large'')]
   \<and> (\<exists>item' s'. process_menu_item default_config shop_world coffee_item fresh_scraper
                     = (Inr item', s')
          \<and> length (serving_sizes_of item') = 3
          \<and> map size_label_of (serving_sizes_of item')
              = [Some ''Small'', Some ''Medium'', Some ''Large'']
          \<and> without_rate_limit (trace s')
              = [Request ''https://site/coffee'', Request ''https://site/coffee-small'',
                 Request ''https://site/coffee-medium'', Request ''https://site/coffee-large'',
                 Sleep ItemPause (1 / 2)])"
proof -
  have h1: "serves shop_world shop_site"
    by (simp add: serves_def shop_world_def)
  have h2: "1 \<le> max_retries default_config"
    by (simp add: default_config_def)
  have h3: "0 \<le> rate_limit_delay default_config"
    by (simp add: default_config_def)
  have f4: "get_str fries_item ''url'' '''' = ''https://site/fries''"
    by (simp add: get_str_def fries_item_def)
  have c4: "get_str coffee_item ''url'' '''' = ''https://site/coffee''"
    by (simp add: get_str_def coffee_item_def)
  have h5: "''https://site/fries'' \<noteq> []" "''https://site/coffee'' \<noteq> []"
    by simp_all
  have d1: "dropdown_menu (shop_site ''https://site/fries'') = None"
    by (simp add: shop_site_def empty_document_def)
  have d2: "dropdown_menu (shop_site ''https://site/coffee'')
       = Some [(''Small'', ''/coffee-small''), (''Medium'', ''/coffee-medium''),
               (''Large'', ''/coffee-large'')]"
    by (simp add: shop_site_def coffee_page_def)
  have urls: "urljoin shop_world (base_url default_config) ''/coffee-small''
                = ''https://site/coffee-small''"
    "urljoin shop_world (base_url default_config) ''/coffee-medium''
                = ''https://site/coffee-medium''"
    "urljoin shop_world (base_url default_config) ''/coffee-large''
                = ''https://site/coffee-large''"
    by (simp_all add: shop_world_def default_config_def)
  show ?thesis
    using h1 d1 d2 urls
      C5_serving_variants [OF h1 h2 h3 f4 h5(1), where s = fresh_scraper
        and anchors = "[]"]
      C5_serving_variants [OF h1 h2 h3 c4 h5(2), where s = fresh_scraper
        and anchors = "[(''Small'', ''/coffee-small''), (''Medium'', ''/coffee-medium''),
               (''Large'', ''/coffee-large'')]"]
    by (simp add: fresh_scraper_def default_config_def numeral_3_eq_3)
qed

section \<open>Allergens and ingredients of an item with several variants\<close>

lemma last_where_split:
  "xs = pre @ [x] @ post \<Longrightarrow> p x \<Longrightarrow> list_all (\<lambda>y. \<not> p y) post \<Longrightarrow>
   last_where p dflt xs = x"
  by (simp add: last_where_def list_all_iff filter_empty_conv)

lemma last_where_none: "list_all (\<lambda>y. \<not> p y) xs \<Longrightarrow> last_where p dflt xs = dflt"
  by (simp add: last_where_def list_all_iff filter_empty_conv)

text \<open>
  Claim C6, as the code has it. For an item whose selector gives at least one option (on a
  site that answers every request), the aggregated allergens are the allergens of the last
  option, in processing order, whose result passes the test of the source: one of the
  lists \<^verbatim>\<open>contains\<close>, \<^verbatim>\<open>does_not_contain\<close>, \<^verbatim>\<open>unknown\<close> is non-empty
  (\<^verbatim>\<open>allergy_information\<close> is not looked at). They are the default \<^verbatim>\<open>ScrapedAllergens()\<close>
  when the result of no option passes it. The aggregated ingredients are those of the last
  option whose ingredients are a non-empty string, and the empty string when there is
  none. An earlier result is overwritten, not merged.
\<close>

theorem C6_last_non_empty_wins:
  assumes "serves w site" and "1 \<le> max_retries cfg" and "0 \<le> rate_limit_delay cfg"
    and "get_str item ''url'' '''' = url" and "url \<noteq> []"
    and "extract_dropdown_options (urljoin w) (base_url cfg) (Some (site url)) = options"
    and "options \<noteq> []"
  shows
    "\<exists>item' s'. process_menu_item cfg w item s = (Inr item', s')
       \<and> (\<forall>pre opt post.
             options = pre @ [opt] @ post
             \<and> has_allergen_lists (extract_allergens (Some (site (option_url opt))))
             \<and> list_all (\<lambda>v. \<not> has_allergen_lists (extract_allergens (Some (site (option_url v)))))
                 post
             \<longrightarrow> map_of item' ''allergens''
                 = Some (PDict (allergens_dict (extract_allergens (Some (site (option_url opt)))))))
       \<and> (list_all (\<lambda>v. \<not> has_allergen_lists (extract_allergens (Some (site (option_url v)))))
             options
           \<longrightarrow> map_of item' ''allergens'' = Some (PDict (allergens_dict ScrapedAllergens_default)))
       \<and> (\<forall>pre opt post.
             options = pre @ [opt] @ post
             \<and> extract_ingredients (Some (site (option_url opt))) \<noteq> []
             \<and> list_all (\<lambda>v. extract_ingredients (Some (site (option_url v))) = []) post
             \<longrightarrow> map_of item' ''ingredients''
                 = Some (PStr (extract_ingredients (Some (site (option_url opt))))))
       \<and> (list_all (\<lambda>v. extract_ingredients (Some (site (option_url v))) = []) options
           \<longrightarrow> map_of item' ''ingredients'' = Some (PStr ''''))"
proof -
  let ?A = "\<lambda>opt. extract_allergens (Some (site (option_url opt)))"
  let ?I = "\<lambda>opt. extract_ingredients (Some (site (option_url opt)))"
  obtain item' s' where run: "process_menu_item cfg w item s = (Inr item', s')"
    and a: "map_of item' ''allergens''
            = Some (PDict (allergens_dict
                (last_where has_allergen_lists ScrapedAllergens_default (map ?A options))))"
    and i: "map_of item' ''ingredients''
            = Some (PStr (last_where (\<lambda>t. t \<noteq> []) '''' (map ?I options)))"
    using process_menu_item_options [OF assms, of s] by force
  have a1: "map_of item' ''allergens'' = Some (PDict (allergens_dict (?A opt)))"
    if "options = pre @ [opt] @ post" and "has_allergen_lists (?A opt)"
      and "list_all (\<lambda>v. \<not> has_allergen_lists (?A v)) post" for pre opt post
  proof -
    have "last_where has_allergen_lists ScrapedAllergens_default (map ?A options) = ?A opt"
      using that
      by (intro last_where_split [where pre = "map ?A pre" and post = "map ?A post"])
        (simp_all add: list_all_iff)
    then show ?thesis using a by simp
  qed
  have a2: "map_of item' ''allergens'' = Some (PDict (allergens_dict ScrapedAllergens_default))"
    if "list_all (\<lambda>v. \<not> has_allergen_lists (?A v)) options"
  proof -
    have "last_where has_allergen_lists ScrapedAllergens_default (map ?A options)
          = ScrapedAllergens_default"
      using that by (intro last_where_none) (simp add: list_all_iff)
    then show ?thesis using a by simp
  qed
  have i1: "map_of item' ''ingredients'' = Some (PStr (?I opt))"
    if "options = pre @ [opt] @ post" and "?I opt \<noteq> []"
      and "list_all (\<lambda>v. ?I v = []) post" for pre opt post
  proof -
    have "last_where (\<lambda>t. t \<noteq> []) '''' (map ?I options) = ?I opt"
      using that
      by (intro last_where_split [where pre = "map ?I pre" and post = "map ?I post"])
        (simp_all add: list_all_iff)
    then show ?thesis using i by simp
  qed
  have i2: "map_of item' ''ingredients'' = Some (PStr '''')"
    if "list_all (\<lambda>v. ?I v = []) options"
  proof -
    have "last_where (\<lambda>t. t \<noteq> []) '''' (map ?I options) = ''''"
      using that by (intro last_where_none) (simp add: list_all_iff)
    then show ?thesis using i by simp
  qed
  from run a1 a2 i1 i2 show ?thesis by blast
qed

lemmas page_eval =
  extract_allergens_def extract_ingredients_def with_error_handling_def on_document_def
  empty_document_def allergen_column_step_def allergy_paragraph_step_def
  ScrapedAllergens_default_def Let_def text_eval

lemma coffee_options:
  "extract_dropdown_options (urljoin shop_world) (base_url default_config)
     (Some (shop_site ''https://site/coffee''))
   = [\<lparr>option_title = ''Small'', option_url = ''https://site/coffee-small''\<rparr>,
      \<lparr>option_title = ''Medium'', option_url = ''https://site/coffee-medium''\<rparr>,
      \<lparr>option_title = ''Large'', option_url = ''https://site/coffee-large''\<rparr>]"
  by (simp add: extract_dropdown_options_def with_error_handling_def on_document_def
      shop_site_def coffee_page_def shop_world_def default_config_def)

lemma small_page_data:
  "extract_allergens (Some (shop_site ''https://site/coffee-small''))
   = \<lparr>contains = [''Milk''], does_not_contain = [], unknown = [], allergy_information = ''''\<rparr>"
  "extract_ingredients (Some (shop_site ''https://site/coffee-small'')) = ''Coffee, Milk''"
  by (simp_all add: shop_site_def small_page_def page_eval)

lemma medium_page_data:
  "extract_allergens (Some (shop_site ''https://site/coffee-medium''))
   = \<lparr>contains = [''Milk'', ''Soy''], does_not_contain = [], unknown = [],
      allergy_information = ''''\<rparr>"
  "extract_ingredients (Some (shop_site ''https://site/coffee-medium'')) = ''Coffee, Milk, Soy''"
  by (simp_all add: shop_site_def medium_page_def page_eval)

lemma large_page_data:
  "extract_allergens (Some (shop_site ''https://site/coffee-large''))
   = \<lparr>contains = [], does_not_contain = [], unknown = [],
      allergy_information = ''Allergy information is provided by the restaurant.''\<rparr>"
  "extract_ingredients (Some (shop_site ''https://site/coffee-large'')) = ''''"
  by (simp_all add: shop_site_def large_page_def page_eval)

theorem C6_last_non_empty_wins_witness:
  "serves shop_world shop_site
   \<and> has_allergen_lists (extract_allergens (Some (shop_site ''https://site/coffee-small'')))
   \<and> has_allergen_lists (extract_allergens (Some (shop_site ''https://site/coffee-medium'')))
   \<and> \<not> has_allergen_lists (extract_allergens (Some (shop_site ''https://site/coffee-large'')))
   \<and> (\<exists>item' s'. process_menu_item default_config shop_world coffee_item fresh_scraper
                     = (Inr item', s')
          \<and> map_of item' ''allergens''
              = Some (PDict [(''contains'', PList [PStr ''Milk'', PStr ''Soy'']),
                             (''does_not_contain'', PList []), (''unknown'', PList []),
                             (''allergy_information'', PStr '''')])
          \<and> map_of item' ''ingredients'' = Some (PStr ''Coffee, Milk, Soy''))"
proof -
  have h1: "serves shop_world shop_site"
    by (simp add: serves_def shop_world_def)
  have h2: "1 \<le> max_retries default_config"
    by (simp add: default_config_def)
  have h3: "0 \<le> rate_limit_delay default_config"
    by (simp add: default_config_def)
  have h4: "get_str coffee_item ''url'' '''' = ''https://site/coffee''"
    by (simp add: get_str_def coffee_item_def)
  have h5: "''https://site/coffee'' \<noteq> []" by simp
  let ?small = "\<lparr>option_title = ''Small'', option_url = ''https://site/coffee-small''\<rparr>"
  let ?medium = "\<lparr>option_title = ''Medium'', option_url = ''https://site/coffee-medium''\<rparr>"
  let ?large = "\<lparr>option_title = ''Large'', option_url = ''https://site/coffee-large''\<rparr>"
  have h7: "[?small, ?medium, ?large] \<noteq> []" by simp
  have e1: "has_allergen_lists (extract_allergens (Some (shop_site ''https://site/coffee-small'')))"
    by (simp add: small_page_data has_allergen_lists_def)
  have e2: "has_allergen_lists (extract_allergens (Some (shop_site ''https://site/coffee-medium'')))"
    by (simp add: medium_page_data has_allergen_lists_def)
  have e3: "\<not> has_allergen_lists (extract_allergens (Some (shop_site ''https://site/coffee-large'')))"
    by (simp add: large_page_data has_allergen_lists_def)
  obtain item' s' where run:
    "process_menu_item default_config shop_world coffee_item fresh_scraper = (Inr item', s')"
    and al: "\<forall>pre opt post.
             [?small, ?medium, ?large] = pre @ [opt] @ post
             \<and> has_allergen_lists (extract_allergens (Some (shop_site (option_url opt))))
             \<and> list_all (\<lambda>v. \<not> has_allergen_lists
                    (extract_allergens (Some (shop_site (option_url v))))) post
             \<longrightarrow> map_of item' ''allergens''
                 = Some (PDict (allergens_dict
                     (extract_allergens (Some (shop_site (option_url opt))))))"
    and ing: "\<forall>pre opt post.
             [?small, ?medium, ?large] = pre @ [opt] @ post
             \<and> extract_ingredients (Some (shop_site (option_url opt))) \<noteq> []
             \<and> list_all (\<lambda>v. extract_ingredients (Some (shop_site (option_url v))) = []) post
             \<longrightarrow> map_of item' ''ingredients''
                 = Some (PStr (extract_ingredients (Some (shop_site (option_url opt)))))"
    using C6_last_non_empty_wins [OF h1 h2 h3 h4 h5 coffee_options h7, of fresh_scraper]
    by blast
  have a: "map_of item' ''allergens''
            = Some (PDict (allergens_dict
                (extract_allergens (Some (shop_site ''https://site/coffee-medium'')))))"
    using al [rule_format, of "[?small]" ?medium "[?large]"] e2 e3 by simp
  have i: "map_of item' ''ingredients''
            = Some (PStr (extract_ingredients (Some (shop_site ''https://site/coffee-medium''))))"
    using ing [rule_format, of "[?small]" ?medium "[?large]"]
    by (simp add: medium_page_data large_page_data)
  show ?thesis
    using h1 e1 e2 e3 run a i
    by (simp add: medium_page_data allergens_dict_def)
qed

text \<open>
  The claim as it is worded, with ``non-empty'' read as ``not the empty default'', fails
  on the coffee item: the result of its last variant, \<^verbatim>\<open>Large\<close>, holds the allergy
  information of the page and so is not the default \<^verbatim>\<open>ScrapedAllergens()\<close>, but the
  aggregate is the result of \<^verbatim>\<open>Medium\<close>, and the allergy information is lost.
\<close>

theorem C6_allergy_information_counterexample:
  "extract_dropdown_options (urljoin shop_world) (base_url default_config)
     (Some (shop_site ''https://site/coffee''))
   = [\<lparr>option_title = ''Small'', option_url = ''https://site/coffee-small''\<rparr>,
      \<lparr>option_title = ''Medium'', option_url = ''https://site/coffee-medium''\<rparr>,
      \<lparr>option_title = ''Large'', option_url = ''https://site/coffee-large''\<rparr>]
   \<and> extract_allergens (Some (shop_site ''https://site/coffee-large''))
       = \<lparr>contains = [], does_not_contain = [], unknown = [],
          allergy_information = ''Allergy information is provided by the restaurant.''\<rparr>
   \<and> extract_allergens (Some (shop_site ''https://site/coffee-large''))
       \<noteq> ScrapedAllergens_default
   \<and> allergens_of (process_menu_item default_config shop_world coffee_item fresh_scraper)
       = Some (PDict (allergens_dict
                 (extract_allergens (Some (shop_site ''https://site/coffee-medium'')))))
   \<and> allergens_of (process_menu_item default_config shop_world coffee_item fresh_scraper)
       = Some (PDict [(''contains'', PList [PStr ''Milk'', PStr ''Soy'']),
                      (''does_not_contain'', PList []), (''unknown'', PList []),
                      (''allergy_information'', PStr '''')])
   \<and> allergens_of (process_menu_item default_config shop_world coffee_item fresh_scraper)
       \<noteq> Some (PDict (allergens_dict
                  (extract_allergens (Some (shop_site ''https://site/coffee-large'')))))"
proof -
  have h1: "serves shop_world shop_site"
    by (simp add: serves_def shop_world_def)
  have h2: "1 \<le> max_retries default_config"
    by (simp add: default_config_def)
  have h3: "0 \<le> rate_limit_delay default_config"
    by (simp add: default_config_def)
  have h4: "get_str coffee_item ''url'' '''' = ''https://site/coffee''"
    by (simp add: get_str_def coffee_item_def)
  have h5: "''https://site/coffee'' \<noteq> []" by simp
  let ?small = "\<lparr>option_title = ''Small'', option_url = ''https://site/coffee-small''\<rparr>"
  let ?medium = "\<lparr>option_title = ''Medium'', option_url = ''https://site/coffee-medium''\<rparr>"
  let ?large = "\<lparr>option_title = ''Large'', option_url = ''https://site/coffee-large''\<rparr>"
  have h7: "[?small, ?medium, ?large] \<noteq> []" by simp
  let ?A = "\<lambda>opt. extract_allergens (Some (shop_site (option_url opt)))"
  have agg: "last_where has_allergen_lists ScrapedAllergens_default
               (map ?A [?small, ?medium, ?large])
             = extract_allergens (Some (shop_site ''https://site/coffee-medium''))"
    by (simp add: last_where_def small_page_data medium_page_data large_page_data
        has_allergen_lists_def)
  obtain s' item' where
    run: "process_menu_item default_config shop_world coffee_item fresh_scraper = (Inr item', s')"
    and al: "map_of item' ''allergens''
             = Some (PDict (allergens_dict
                 (last_where has_allergen_lists ScrapedAllergens_default
                    (map ?A [?small, ?medium, ?large]))))"
    using process_menu_item_options [OF h1 h2 h3 h4 h5 coffee_options h7, of fresh_scraper]
    by (elim conjE exE) (rule that, assumption, simp only: enrich_item_allergens)
  have a: "allergens_of (process_menu_item default_config shop_world coffee_item fresh_scraper)
           = Some (PDict (allergens_dict
                 (extract_allergens (Some (shop_site ''https://site/coffee-medium'')))))"
    unfolding allergens_of_def run using al unfolding agg by simp
  have d: "extract_allergens (Some (shop_site ''https://site/coffee-large''))
           \<noteq> ScrapedAllergens_default"
    by (simp add: large_page_data ScrapedAllergens_default_def)
  have m: "allergens_dict (extract_allergens (Some (shop_site ''https://site/coffee-medium'')))
           = [(''contains'', PList [PStr ''Milk'', PStr ''Soy'']),
              (''does_not_contain'', PList []), (''unknown'', PList []),
              (''allergy_information'', PStr '''')]"
    by (simp add: medium_page_data allergens_dict_def)
  have n: "allergens_dict (extract_allergens (Some (shop_site ''https://site/coffee-medium'')))
           \<noteq> allergens_dict (extract_allergens (Some (shop_site ''https://site/coffee-large'')))"
    by (simp add: medium_page_data large_page_data allergens_dict_def)
  show ?thesis
    unfolding a using coffee_options large_page_data(1) d m n
    by (intro conjI) simp_all
qed

section \<open>Restaurant names\<close>

lemma raw_name_direct_text:
  "first_direct_string children = Some t \<Longrightarrow> t \<noteq> [] \<Longrightarrow>
   raw_name (Some children) = Some (strip t)"
  by (simp add: raw_name_def)

lemma raw_name_fallback:
  "first_direct_string children = None \<Longrightarrow> get_text children \<noteq> [] \<Longrightarrow>
   raw_name (Some children) = Some (strip (replace '' Nutrition'' '''' (get_text children)))"
  by (simp add: raw_name_def Let_def)

text \<open>
  Claim C8 holds of a label with a direct text node (the name is that node, stripped:
  \<^verbatim>\<open>"Taco Bell"\<close> for the label of the claim), and of a label without one whose text ends
  with \<^verbatim>\<open>" Nutrition"\<close> and has it nowhere else. It does not hold of the fallback in general:
  the comment says that a trailing \<^verbatim>\<open>" Nutrition"\<close> is removed, but
  \<^verbatim>\<open>text.replace(" Nutrition", "")\<close> removes every occurrence. A label without direct text
  node whose text is \<^verbatim>\<open>"Pure Nutrition Bar"\<close> has no such suffix, so its name should be the
  text unchanged; the code gives \<^verbatim>\<open>"Pure Bar"\<close>.
\<close>

theorem C8_fallback_removes_every_occurrence:
  "first_direct_string [Element ''span'' [Text ''Pure Nutrition Bar'']] = None
   \<and> get_text [Element ''span'' [Text ''Pure Nutrition Bar'']] = ''Pure Nutrition Bar''
   \<and> raw_name (Some [Element ''span'' [Text ''Pure Nutrition Bar'']]) = Some ''Pure Bar''
   \<and> raw_name (Some [Text ''Taco Bell'', Element ''span'' [Text '' Nutrition'']])
       = Some ''Taco Bell''
   \<and> raw_name (Some [Element ''b'' [Text ''Taco Bell''], Element ''span'' [Text '' Nutrition'']])
       = Some ''Taco Bell''"
  by (simp add: raw_name_def get_text_def Let_def text_eval)

section \<open>The menu index\<close>

lemma fetch_page_answers:
  assumes "\<forall>k. net w k u = Ok page" and "1 \<le> max_retries cfg"
  shows "fst (fetch_page cfg w u None None s) = Inr (Some page)"
proof -
  obtain rest where r: "range_py (max_retries cfg) = 0 # rest"
    using range_py_pos assms(2) by blast
  have ok: "net w (sent s) u = Ok page"
    using assms(1) by simp
  show ?thesis
    using fetch_attempts_ok [OF ok, where cfg = cfg and retries = "max_retries cfg"
        and delay = "retry_delay cfg" and attempt = 0 and rest = rest]
    by (auto simp: fetch_page_def or_else_def Let_def r)
qed

lemma menu_scrape_step_stores:
  assumes "map_of r ''name'' = Some name" and "name \<noteq> []"
    and "map_of r ''url'' = Some url" and "url \<noteq> []"
  shows "menu_scrape_step cfg w r (menu_index, s)
         = (AList.update name (stored_value cfg w name url s) menu_index,
            snd (scrape_restaurant_menu cfg w name url s))"
  using assms
  by (cases "scrape_restaurant_menu cfg w name url s")
    (auto simp: menu_scrape_step_def stored_value_def split: sum.splits)

lemma menu_scrape_step_other:
  assumes "\<not> stored_under k r"
  shows "map_of (fst (menu_scrape_step cfg w r (menu_index, s))) k = map_of menu_index k"
proof (cases "\<exists>name url. map_of r ''name'' = Some name \<and> name \<noteq> []
                \<and> map_of r ''url'' = Some url \<and> url \<noteq> []")
  case True
  then obtain name url where v: "map_of r ''name'' = Some name" "name \<noteq> []"
    "map_of r ''url'' = Some url" "url \<noteq> []"
    by blast
  have "name \<noteq> k"
    using assms v by (auto simp: stored_under_def)
  then show ?thesis
    by (simp add: menu_scrape_step_stores [OF v] update_conv')
next
  case False
  then have "menu_scrape_step cfg w r (menu_index, s) = (menu_index, s)"
    by (auto simp: menu_scrape_step_def split: option.splits)
  then show ?thesis by simp
qed

lemma menu_scrape_step_keys:
  "k \<in> fst ` set menu_index \<Longrightarrow> k \<in> fst ` set (fst (menu_scrape_step cfg w r (menu_index, s)))"
proof (cases "\<exists>name url. map_of r ''name'' = Some name \<and> name \<noteq> []
                \<and> map_of r ''url'' = Some url \<and> url \<noteq> []")
  case True
  then obtain name url where v: "map_of r ''name'' = Some name" "name \<noteq> []"
    "map_of r ''url'' = Some url" "url \<noteq> []"
    by blast
  assume "k \<in> fst ` set menu_index"
  then show ?thesis
    by (simp add: menu_scrape_step_stores [OF v] dom_update)
next
  case False
  then have "menu_scrape_step cfg w r (menu_index, s) = (menu_index, s)"
    by (auto simp: menu_scrape_step_def split: option.splits)
  moreover assume "k \<in> fst ` set menu_index"
  ultimately show ?thesis by simp
qed

lemma fold_menu_scrape_other:
  "list_all (\<lambda>r. \<not> stored_under k r) rs \<Longrightarrow>
   map_of (fst (fold (menu_scrape_step cfg w) rs (menu_index, s))) k = map_of menu_index k"
proof (induction rs arbitrary: menu_index s)
  case Nil
  then show ?case by simp
next
  case (Cons r rs)
  obtain mi' s' where st: "menu_scrape_step cfg w r (menu_index, s) = (mi', s')"
    by (cases "menu_scrape_step cfg w r (menu_index, s)")
  have "map_of mi' k = map_of menu_index k"
    using menu_scrape_step_other [of k r cfg w menu_index s] Cons.prems st by simp
  then show ?case
    using Cons.IH [of mi' s'] Cons.prems st by simp
qed

lemma fold_menu_scrape_keys:
  "k \<in> fst ` set menu_index \<Longrightarrow>
   k \<in> fst ` set (fst (fold (menu_scrape_step cfg w) rs (menu_index, s)))"
proof (induction rs arbitrary: menu_index s)
  case Nil
  then show ?case by simp
next
  case (Cons r rs)
  obtain mi' s' where st: "menu_scrape_step cfg w r (menu_index, s) = (mi', s')"
    by (cases "menu_scrape_step cfg w r (menu_index, s)")
  have "k \<in> fst ` set mi'"
    using menu_scrape_step_keys [of k menu_index cfg w r s] Cons.prems st by simp
  then show ?case
    using Cons.IH [of mi' s'] st by simp
qed

lemma menu_scrape_split:
  assumes "map_of r ''name'' = Some name" and "name \<noteq> []"
    and "map_of r ''url'' = Some url" and "url \<noteq> []"
  shows "menu_scrape cfg w (pre @ [r] @ post) s
         = fold (menu_scrape_step cfg w) post
             (AList.update name
                (stored_value cfg w name url (snd (menu_scrape cfg w pre s)))
                (fst (menu_scrape cfg w pre s)),
              snd (scrape_restaurant_menu cfg w name url (snd (menu_scrape cfg w pre s))))"
proof -
  obtain mi0 s0 where p: "menu_scrape cfg w pre s = (mi0, s0)"
    by (cases "menu_scrape cfg w pre s")
  then have "fold (menu_scrape_step cfg w) pre ([], s) = (mi0, s0)"
    by (simp add: menu_scrape_def)
  then show ?thesis
    using p by (simp add: menu_scrape_def menu_scrape_step_stores [OF assms])
qed

text \<open>
  Claim C9, as the code has it. A restaurant of the input list with a non-empty name and
  a non-empty URL has its name among the keys of the output of \<^verbatim>\<open>MenuItemScraper.scrape\<close>.
  The output is keyed by name, so a later entry of the same name replaces an earlier one:
  when no later entry of the list is stored under the name, the value under it is the
  restaurant's own, \<^verbatim>\<open>{url, restaurant_logo: <logo>, items: <items>}\<close> after a successful
  extraction and the placeholder \<^verbatim>\<open>{url, restaurant_logo: "", items: [], error: <message>}\<close>
  after an exception.
\<close>

theorem C9_menu_index_keeps_every_name:
  assumes "map_of r ''name'' = Some name" and "name \<noteq> []"
    and "map_of r ''url'' = Some url" and "url \<noteq> []"
  shows
    "(r \<in> set restaurants \<longrightarrow> name \<in> fst ` set (fst (menu_scrape cfg w restaurants s)))
     \<and> (restaurants = pre @ [r] @ post \<and> list_all (\<lambda>r'. \<not> stored_under name r') post
        \<longrightarrow> (\<forall>logo_url items.
               fst (scrape_restaurant_menu cfg w name url (snd (menu_scrape cfg w pre s)))
                 = Inr (logo_url, items)
               \<longrightarrow> map_of (fst (menu_scrape cfg w restaurants s)) name
                   = Some (PDict [(''url'', PStr url), (''restaurant_logo'', PStr logo_url),
                                  (''items'', PList (map (\<lambda>item. PDict (pydict_of item)) items))]))
          \<and> (\<forall>e.
               fst (scrape_restaurant_menu cfg w name url (snd (menu_scrape cfg w pre s))) = Inl e
               \<longrightarrow> map_of (fst (menu_scrape cfg w restaurants s)) name
                   = Some (PDict [(''url'', PStr url), (''restaurant_logo'', PStr ''''),
                                  (''items'', PList []), (''error'', PStr (str_exn e))])))"
proof -
  have stored: "map_of (fst (menu_scrape cfg w (pre @ [r] @ post) s)) name
                = Some (stored_value cfg w name url (snd (menu_scrape cfg w pre s)))"
    if "list_all (\<lambda>r'. \<not> stored_under name r') post" for pre post
    unfolding menu_scrape_split [OF assms]
    using that by (simp add: fold_menu_scrape_other update_conv')
  have keys: "name \<in> fst ` set (fst (menu_scrape cfg w restaurants s))"
    if mem: "r \<in> set restaurants"
  proof -
    obtain pre post where sp: "restaurants = pre @ [r] @ post"
      using split_list [OF mem] by auto
    show ?thesis
      unfolding sp menu_scrape_split [OF assms]
      by (intro fold_menu_scrape_keys) (simp add: dom_update)
  qed
  have ok: "map_of (fst (menu_scrape cfg w restaurants s)) name
            = Some (PDict [(''url'', PStr url), (''restaurant_logo'', PStr logo_url),
                           (''items'', PList (map (\<lambda>item. PDict (pydict_of item)) items))])"
    if "restaurants = pre @ [r] @ post" and "list_all (\<lambda>r'. \<not> stored_under name r') post"
      and "fst (scrape_restaurant_menu cfg w name url (snd (menu_scrape cfg w pre s)))
           = Inr (logo_url, items)" for logo_url items
    using stored [OF that(2), of pre] that(1,3)
    by (simp add: stored_value_def menu_entry_def)
  have failed: "map_of (fst (menu_scrape cfg w restaurants s)) name
            = Some (PDict [(''url'', PStr url), (''restaurant_logo'', PStr ''''),
                           (''items'', PList []), (''error'', PStr (str_exn e))])"
    if "restaurants = pre @ [r] @ post" and "list_all (\<lambda>r'. \<not> stored_under name r') post"
      and "fst (scrape_restaurant_menu cfg w name url (snd (menu_scrape cfg w pre s))) = Inl e"
    for e
    using stored [OF that(2), of pre] that(1,3)
    by (simp add: stored_value_def menu_placeholder_def)
  from keys ok failed show ?thesis by blast
qed

lemma menu_scrape_stored:
  assumes "map_of r ''name'' = Some name" and "name \<noteq> []"
    and "map_of r ''url'' = Some url" and "url \<noteq> []"
    and "list_all (\<lambda>r'. \<not> stored_under name r') post"
  shows "map_of (fst (menu_scrape cfg w (pre @ [r] @ post) s)) name
         = Some (stored_value cfg w name url (snd (menu_scrape cfg w pre s)))"
  unfolding menu_scrape_split [OF assms(1-4)]
  using assms(5) by (simp add: fold_menu_scrape_other update_conv')

lemma subway_fails:
  "fst (scrape_restaurant_menu default_config half_dead_world name ''https://site/subway''
          fresh_scraper)
   = Inl (NetworkException ''https://site/subway'' 3 ''timed out'')"
proof -
  have h1: "or_else None (max_retries default_config) = 3"
    by (simp add: or_else_def default_config_def)
  have h2: "or_else None (retry_delay default_config) = 1"
    by (simp add: or_else_def default_config_def)
  have "\<exists>s'. fetch_attempts default_config half_dead_world ''https://site/subway'' 3 1
              [0, 1, 2] fresh_scraper
            = (Inl (NetworkException ''https://site/subway'' 3 ''timed out''), s')"
    by (simp add: half_dead_world_def session_get_def time_sleep_def Let_def)
  then obtain s' where "fetch_page default_config half_dead_world ''https://site/subway''
      None None fresh_scraper
    = (Inl (NetworkException ''https://site/subway'' 3 ''timed out''), s')"
    using h1 h2 by (auto simp: fetch_page_def Let_def range_py_3)
  then show ?thesis
    by (simp add: scrape_restaurant_menu_def)
qed

lemma other_pages_answer:
  assumes "u \<noteq> ''https://site/subway''"
  shows "fst (scrape_restaurant_menu default_config half_dead_world name u s) = Inr ('''', [])"
proof -
  have "\<forall>k. net half_dead_world k u = Ok empty_document"
    using assms by (simp add: half_dead_world_def)
  moreover have "1 \<le> max_retries default_config"
    by (simp add: default_config_def)
  ultimately have f: "fst (fetch_page default_config half_dead_world u None None s)
                      = Inr (Some empty_document)"
    by (rule fetch_page_answers)
  obtain r s1 where p: "fetch_page default_config half_dead_world u None None s = (r, s1)"
    by (cases "fetch_page default_config half_dead_world u None None s")
  have logo: "extract_logo_url uj base (Some empty_document) = ''''" for uj base
    by (simp add: extract_logo_url_def with_error_handling_def on_document_def
        empty_document_def)
  have items: "extract_menu_items uj base (Some empty_document) = []" for uj base
    by (simp add: extract_menu_items_def with_error_handling_def on_document_def
        empty_document_def)
  show ?thesis
    using f p by (simp add: scrape_restaurant_menu_def logo items)
qed

theorem C9_menu_index_keeps_every_name_witness:
  "map_of subway ''name'' = Some ''Subway'' \<and> map_of subway ''url'' = Some ''https://site/subway''
   \<and> map_of kfc ''name'' = Some ''KFC'' \<and> map_of kfc ''url'' = Some ''https://site/kfc''
   \<and> list_all (\<lambda>r'. \<not> stored_under ''Subway'' r') [kfc]
   \<and> ''Subway'' \<in> fst ` set (fst (menu_scrape default_config half_dead_world [subway, kfc]
                                    fresh_scraper))
   \<and> ''KFC'' \<in> fst ` set (fst (menu_scrape default_config half_dead_world [subway, kfc]
                                 fresh_scraper))
   \<and> map_of (fst (menu_scrape default_config half_dead_world [subway, kfc] fresh_scraper))
        ''Subway''
      = Some (PDict [(''url'', PStr ''https://site/subway''), (''restaurant_logo'', PStr ''''),
                     (''items'', PList []),
                     (''error'',
                      PStr (str_exn (NetworkException ''https://site/subway'' 3 ''timed out'')))])
   \<and> map_of (fst (menu_scrape default_config half_dead_world [subway, kfc] fresh_scraper))
        ''KFC''
      = Some (PDict [(''url'', PStr ''https://site/kfc''), (''restaurant_logo'', PStr ''''),
                     (''items'', PList [])])"
proof -
  have s1: "map_of subway ''name'' = Some ''Subway''"
    and s3: "map_of subway ''url'' = Some ''https://site/subway''"
    by (simp_all add: subway_def)
  have k1: "map_of kfc ''name'' = Some ''KFC''"
    and k3: "map_of kfc ''url'' = Some ''https://site/kfc''"
    by (simp_all add: kfc_def)
  have ne: "''Subway'' \<noteq> []" "''https://site/subway'' \<noteq> []" "''KFC'' \<noteq> []"
    "''https://site/kfc'' \<noteq> []"
    by simp_all
  have post: "list_all (\<lambda>r'. \<not> stored_under ''Subway'' r') [kfc]"
    by (simp add: stored_under_def kfc_def)
  have empty: "menu_scrape default_config half_dead_world [] fresh_scraper = ([], fresh_scraper)"
    by (simp add: menu_scrape_def)
  have kfc_ok: "fst (scrape_restaurant_menu default_config half_dead_world ''KFC''
                       ''https://site/kfc'' s) = Inr ('''', [])" for s
    by (rule other_pages_answer) simp
  show ?thesis
    using s1 s3 k1 k3 post
      C9_menu_index_keeps_every_name [OF s1 ne(1) s3 ne(2), where restaurants = "[subway, kfc]"
        and pre = "[]" and post = "[kfc]" and cfg = default_config and w = half_dead_world
        and s = fresh_scraper]
      C9_menu_index_keeps_every_name [OF k1 ne(3) k3 ne(4), where restaurants = "[subway, kfc]"
        and pre = "[subway]" and post = "[]" and cfg = default_config and w = half_dead_world
        and s = fresh_scraper]
    by (simp add: empty subway_fails kfc_ok)
qed

theorem C9_same_name_counterexample:
  "stored_under ''Subway'' subway
   \<and> fst (scrape_restaurant_menu default_config half_dead_world ''Subway''
            ''https://site/subway'' fresh_scraper)
       = Inl (NetworkException ''https://site/subway'' 3 ''timed out'')
   \<and> map_of (fst (menu_scrape default_config half_dead_world [subway, subway_canada]
                     fresh_scraper)) ''Subway''
       = Some (PDict [(''url'', PStr ''https://site/subway-canada''),
                      (''restaurant_logo'', PStr ''''), (''items'', PList [])])
   \<and> map_of (fst (menu_scrape default_config half_dead_world [subway, subway_canada]
                     fresh_scraper)) ''Subway''
       \<noteq> Some (menu_placeholder ''https://site/subway''
                 (NetworkException ''https://site/subway'' 3 ''timed out''))"
proof -
  have c1: "map_of subway_canada ''name'' = Some ''Subway''"
    and c3: "map_of subway_canada ''url'' = Some ''https://site/subway-canada''"
    by (simp_all add: subway_canada_def)
  have ne: "''Subway'' \<noteq> []" "''https://site/subway-canada'' \<noteq> []"
    by simp_all
  have post: "list_all (\<lambda>r'. \<not> stored_under ''Subway'' r') []"
    by simp
  have ok: "fst (scrape_restaurant_menu default_config half_dead_world ''Subway''
                   ''https://site/subway-canada'' s) = Inr ('''', [])" for s
    by (rule other_pages_answer) simp
  have "map_of (fst (menu_scrape default_config half_dead_world ([subway] @ [subway_canada] @ [])
                     fresh_scraper)) ''Subway''
        = Some (stored_value default_config half_dead_world ''Subway''
                  ''https://site/subway-canada''
                  (snd (menu_scrape default_config half_dead_world [subway] fresh_scraper)))"
    using c1 ne(1) c3 ne(2) post by (rule menu_scrape_stored)
  then have v: "map_of (fst (menu_scrape default_config half_dead_world [subway, subway_canada]
                     fresh_scraper)) ''Subway''
       = Some (PDict [(''url'', PStr ''https://site/subway-canada''),
                      (''restaurant_logo'', PStr ''''), (''items'', PList [])])"
    by (simp add: stored_value_def ok menu_entry_def)
  have su: "stored_under ''Subway'' subway"
    by (simp add: stored_under_def subway_def)
  show ?thesis
    using su v subway_fails [of "''Subway''"] by (simp add: menu_placeholder_def)
qed

section \<open>Checkpoints and the result of stage 3\<close>

lemma dict_merge_Nil [simp]: "dict_merge a [] = a"
  by (simp add: dict_merge_def)

lemma dict_merge_Cons [simp]: "dict_merge a ((k, v) # b) = dict_merge (AList.update k v a) b"
  by (simp add: dict_merge_def)

lemma dict_merge_other: "k \<notin> fst ` set b \<Longrightarrow> map_of (dict_merge a b) k = map_of a k"
proof (induction b arbitrary: a)
  case Nil
  then show ?case by simp
next
  case (Cons p b)
  obtain k' v' where p: "p = (k', v')" by (cases p)
  show ?case
    using Cons.prems Cons.IH [of "AList.update k' v' a"] unfolding p
    by (simp add: update_conv')
qed

lemma dict_merge_second:
  "distinct (map fst b) \<Longrightarrow> map_of b k = Some v \<Longrightarrow> map_of (dict_merge a b) k = Some v"
proof (induction b arbitrary: a)
  case Nil
  then show ?case by simp
next
  case (Cons p b)
  obtain k' v' where p: "p = (k', v')" by (cases p)
  show ?case
  proof (cases "k = k'")
    case True
    then have "k \<notin> fst ` set b" and "v = v'"
      using Cons.prems unfolding p by auto
    then show ?thesis
      using True unfolding p by (simp add: dict_merge_other update_conv')
  next
    case False
    then show ?thesis
      using Cons.prems Cons.IH [of "AList.update k' v' a"] unfolding p by simp
  qed
qed

lemma scrape_restaurants_keys:
  "fst ` set (fst (scrape_restaurants cfg w menu_data enriched_data s))
   = fst ` set enriched_data \<union> fst ` set menu_data"
proof (induction menu_data arbitrary: enriched_data s)
  case Nil
  then show ?case by simp
next
  case (Cons p menu_data)
  obtain restaurant_name info where p: "p = (restaurant_name, info)" by (cases p)
  obtain processed_items s1 where
    pi: "process_items cfg w (case info_items info of Some l \<Rightarrow> l | None \<Rightarrow> []) [] s
         = (processed_items, s1)"
    by (cases "process_items cfg w (case info_items info of Some l \<Rightarrow> l | None \<Rightarrow> []) [] s")
  show ?case
    unfolding p by (simp add: pi Cons.IH dom_update)
qed

lemma drop_keys:
  "fst ` set (fold (\<lambda>restaurant_name md.
                      if restaurant_name \<in> fst ` set md then AList.delete restaurant_name md
                      else md) ks menu_data)
   = fst ` set menu_data - set ks"
proof (induction ks arbitrary: menu_data)
  case Nil
  then show ?case by simp
next
  case (Cons k ks)
  have d: "fst ` set (AList.delete k menu_data) = fst ` set menu_data - {k}"
    using delete_keys [of k menu_data] set_removeAll [of k "map fst menu_data"]
    by (simp add: set_map [symmetric] del: set_map)
  show ?case
    using Cons.IH [of "AList.delete k menu_data"] Cons.IH [of menu_data] d
    by auto
qed

lemma pending_keys:
  "fst ` set (pending_menu_data True checkpoint_files menu_data)
   = fst ` set menu_data - fst ` set (load_checkpoints checkpoint_files)"
  by (auto simp: pending_menu_data_def Let_def drop_checkpointed_def drop_keys)

lemma update_values:
  "list_all P (map snd d) \<Longrightarrow> P v \<Longrightarrow> list_all P (map snd (AList.update k v d))"
  by (induction d) auto

lemma dict_merge_values:
  "list_all P (map snd a) \<Longrightarrow> list_all P (map snd b) \<Longrightarrow> list_all P (map snd (dict_merge a b))"
proof (induction b arbitrary: a)
  case Nil
  then show ?case by simp
next
  case (Cons p b)
  obtain k v where p: "p = (k, v)" by (cases p)
  have "list_all P (map snd (AList.update k v a))"
    using Cons.prems unfolding p by (simp add: update_values)
  then show ?case
    using Cons.prems Cons.IH [of "AList.update k v a"] unfolding p by simp
qed

lemma sum_py_returns:
  "list_all (\<lambda>x. \<exists>n. f x = Inr n) xs \<Longrightarrow> \<exists>n. sum_py f xs = Inr n"
  by (induction xs) auto

lemma item_variations_returns:
  assumes "item_shape v"
  shows "\<exists>n. item_variations v = Inr n"
proof -
  obtain item where v: "v = PDict item"
    using assms by (cases v) simp_all
  show ?thesis
  proof (cases "map_of item ''nutritional_values''")
    case None
    then show ?thesis
      unfolding v by (simp add: item_variations_def py_get_def py_len_def)
  next
    case (Some nutritional_values)
    then obtain d where d: "nutritional_values = PDict d"
      using assms unfolding v by (cases nutritional_values) simp_all
    show ?thesis
    proof (cases "map_of d ''serving_sizes''")
      case None
      then show ?thesis
        unfolding v using Some d by (simp add: item_variations_def py_get_def py_len_def)
    next
      case inner: (Some serving_sizes)
      then obtain l where "serving_sizes = PList l"
        using assms Some d unfolding v by (cases serving_sizes) simp_all
      then show ?thesis
        unfolding v using Some d inner by (simp add: item_variations_def py_get_def py_len_def)
    qed
  qed
qed

lemma restaurant_variations_returns:
  assumes "restaurant_shape v"
  shows "\<exists>n. restaurant_variations v = Inr n"
proof -
  obtain data where v: "v = PDict data"
    using assms by (cases v) simp_all
  show ?thesis
  proof (cases "map_of data ''items''")
    case None
    then show ?thesis
      unfolding v by (simp add: restaurant_variations_def py_get_def py_iter_def)
  next
    case (Some items)
    then obtain l where l: "items = PList l"
      using assms unfolding v by (cases items) simp_all
    have "list_all item_shape l"
      using assms Some l unfolding v by simp
    then have "list_all (\<lambda>x. \<exists>n. item_variations x = Inr n) l"
      by (simp add: list_all_iff item_variations_returns)
    then obtain n where "sum_py item_variations l = Inr n"
      using sum_py_returns by blast
    then show ?thesis
      unfolding v using Some l by (simp add: restaurant_variations_def py_get_def py_iter_def)
  qed
qed

lemma total_variations_returns:
  assumes "list_all restaurant_shape (map snd enriched_data)"
  shows "\<exists>n. total_variations enriched_data = Inr n"
proof -
  have "list_all (\<lambda>x. \<exists>n. restaurant_variations x = Inr n) (map snd enriched_data)"
    using assms by (simp add: list_all_iff restaurant_variations_returns)
  then show ?thesis
    unfolding total_variations_def by (rule sum_py_returns)
qed

lemma enrich_item_shape: "item_shape (PDict (enrich_item item serving_sizes allergens ingredients))"
  by (simp add: enrich_item_def update_conv')

lemma placeholder_item_shape: "item_shape (PDict (placeholder_item item e))"
  by (simp add: placeholder_item_def update_conv')

lemma process_menu_item_body_cases:
  assumes "process_menu_item_body cfg w item s = (Inr v, s')"
  shows "v = pydict_of item
         \<or> (\<exists>serving_sizes allergens ingredients.
               v = enrich_item (pydict_of item) serving_sizes allergens ingredients)"
proof (cases "get_str item ''url'' '''' = []")
  case True
  then show ?thesis
    using assms by (simp add: process_menu_item_body_def Let_def)
next
  case False
  obtain r1 s1 where f: "fetch_page cfg w (get_str item ''url'' '''') None None s = (r1, s1)"
    by (cases "fetch_page cfg w (get_str item ''url'' '''') None None s")
  show ?thesis
  proof (cases r1)
    case (Inl e)
    then show ?thesis
      using assms False f by (simp add: process_menu_item_body_def Let_def)
  next
    case (Inr doc)
    let ?options = "extract_dropdown_options (urljoin w) (base_url cfg) doc"
    let ?name = "get_str item ''name'' ''''"
    let ?url = "get_str item ''url'' ''''"
    let ?inner =
      "if ?options \<noteq> []
       then (case process_options cfg w ?name ?options ([], ScrapedAllergens_default, '''') s1 of
               (Inl e, s2) \<Rightarrow> (Inl e, s2)
             | (Inr (serving_sizes, aggregated_allergens, aggregated_ingredients), s2) \<Rightarrow>
                 (Inr (enrich_item (pydict_of item) serving_sizes
                         aggregated_allergens aggregated_ingredients), s2))
       else (case extract_item_nutrition_data cfg w ?url ''1 serving'' ?name s1 of
               (Inl e, s2) \<Rightarrow> (Inl e, s2)
             | (Inr (serving_size, allergens, ingredients, image_url), s2) \<Rightarrow>
                 (Inr (enrich_item (pydict_of item)
                         [serving_dict serving_size image_url] allergens ingredients), s2))"
    obtain r2 s2 where i: "?inner = (r2, s2)" by (cases ?inner)
    have body: "process_menu_item_body cfg w item s =
       (case (r2, s2) of
          (Inl e, s2) \<Rightarrow> (Inl e, s2)
        | (Inr item', s2) \<Rightarrow>
            (case time_sleep ItemPause (rate_limit_delay cfg) s2 of
               Inl e \<Rightarrow> (Inl e, s2)
             | Inr s3 \<Rightarrow> (Inr item', s3)))"
      unfolding i [symmetric]
      using False f Inr by (simp add: process_menu_item_body_def Let_def)
    have r2: "r2 = Inr v"
      using assms unfolding body by (auto split: sum.splits)
    have "\<exists>serving_sizes allergens ingredients.
            v = enrich_item (pydict_of item) serving_sizes allergens ingredients"
      using i unfolding r2
      by (auto split: if_splits prod.splits sum.splits)
    then show ?thesis by simp
  qed
qed

lemma process_menu_item_shape:
  assumes "map_of item ''nutritional_values'' = None"
    and "process_menu_item cfg w item s = (Inr v, s')"
  shows "item_shape (PDict v)"
proof (cases "process_menu_item_body cfg w item s")
  case (Pair r s1)
  show ?thesis
  proof (cases r)
    case (Inl e)
    then have "v = []"
      using assms(2) Pair by (auto simp: process_menu_item_def with_error_handling_def)
    then show ?thesis by simp
  next
    case (Inr v')
    then have v: "v = v'"
      using assms(2) Pair by (auto simp: process_menu_item_def with_error_handling_def)
    consider "v' = pydict_of item"
      | serving_sizes allergens ingredients
        where "v' = enrich_item (pydict_of item) serving_sizes allergens ingredients"
      using process_menu_item_body_cases [of cfg w item s v' s1] Pair Inr by auto
    then show ?thesis
    proof cases
      case 1
      then show ?thesis using v assms(1) by simp
    next
      case 2
      then show ?thesis unfolding v by (simp only: enrich_item_shape)
    qed
  qed
qed

lemma process_items_shape:
  "list_all (\<lambda>item. map_of item ''nutritional_values'' = None) items \<Longrightarrow>
   list_all item_shape (map PDict processed_items) \<Longrightarrow>
   list_all item_shape (map PDict (fst (process_items cfg w items processed_items s)))"
proof (induction items arbitrary: processed_items s)
  case Nil
  then show ?case by simp
next
  case (Cons item items)
  obtain r s1 where run: "process_menu_item cfg w item s = (r, s1)"
    by (cases "process_menu_item cfg w item s")
  show ?case
  proof (cases r)
    case (Inl e)
    then show ?thesis
      using Cons.prems run
        Cons.IH [of "processed_items @ [placeholder_item item e]" s1]
      by (simp add: placeholder_item_shape del: item_shape.simps)
  next
    case (Inr v)
    have "item_shape (PDict v)"
      using Cons.prems(1) run Inr process_menu_item_shape [of item cfg w s v s1] by simp
    then show ?thesis
      using Cons.prems run Inr Cons.IH [of "processed_items @ [v]" s1]
      by (simp del: item_shape.simps)
  qed
qed

lemma scrape_restaurants_shape:
  "menu_items_plain menu_data \<Longrightarrow>
   list_all restaurant_shape (map snd enriched_data) \<Longrightarrow>
   list_all restaurant_shape
     (map snd (fst (scrape_restaurants cfg w menu_data enriched_data s)))"
proof (induction menu_data arbitrary: enriched_data s)
  case Nil
  then show ?case by simp
next
  case (Cons p menu_data)
  obtain restaurant_name info where p: "p = (restaurant_name, info)" by (cases p)
  let ?items = "case info_items info of Some l \<Rightarrow> l | None \<Rightarrow> []"
  obtain processed_items s1 where
    pi: "process_items cfg w ?items [] s = (processed_items, s1)"
    by (cases "process_items cfg w ?items [] s")
  have "list_all (\<lambda>item. map_of item ''nutritional_values'' = None) ?items"
    using Cons.prems(1) unfolding p by (simp add: menu_items_plain_def)
  then have "list_all item_shape (map PDict processed_items)"
    using process_items_shape [of ?items "[]" cfg w s] pi by simp
  then have entry: "restaurant_shape
     (PDict [(''url'', PStr (case info_url info of Some u \<Rightarrow> u | None \<Rightarrow> [])),
             (''restaurant_logo'',
              PStr (case info_restaurant_logo info of Some u \<Rightarrow> u | None \<Rightarrow> [])),
             (''items'', PList (map PDict processed_items))])"
    by simp
  have rest: "menu_items_plain menu_data"
    using Cons.prems(1) by (simp add: menu_items_plain_def)
  show ?case
    unfolding p
    using entry rest Cons.prems(2) pi
    by (simp add: Cons.IH update_values)
qed

lemma drop_subset:
  "set (fold (\<lambda>restaurant_name md.
                if restaurant_name \<in> fst ` set md then AList.delete restaurant_name md
                else md) ks menu_data)
   \<subseteq> set menu_data"
proof (induction ks arbitrary: menu_data)
  case Nil
  then show ?case by simp
next
  case (Cons k ks)
  have "set (AList.delete k menu_data) \<subseteq> set menu_data"
    by (auto simp: AList.delete_eq)
  then show ?case
    using Cons.IH [of "AList.delete k menu_data"] Cons.IH [of menu_data] by auto
qed

lemma pending_plain:
  assumes "menu_items_plain menu_data"
  shows "menu_items_plain (pending_menu_data resume_from_checkpoint checkpoint_files menu_data)"
proof -
  have "set (pending_menu_data resume_from_checkpoint checkpoint_files menu_data) \<subseteq> set menu_data"
    using drop_subset [of "map fst (load_checkpoints checkpoint_files)" menu_data]
    by (simp add: pending_menu_data_def Let_def drop_checkpointed_def)
  then show ?thesis
    using assms unfolding menu_items_plain_def list_all_iff by blast
qed

lemma checkpoint_keys_apart:
  "fst ` set (fst (nutrition_scrape cfg w
                     (pending_menu_data True checkpoint_files menu_data) s))
   \<inter> fst ` set (load_checkpoints checkpoint_files) = {}"
  using scrape_restaurants_keys
    [of cfg w "pending_menu_data True checkpoint_files menu_data" "[]" s]
  by (auto simp: nutrition_scrape_def pending_keys)

text \<open>
  A checkpoint value that is not a dictionary makes the total raise: stage 3 ends with
  the \<^verbatim>\<open>AttributeError\<close> and returns nothing.
\<close>

lemma broken_checkpoint_raises:
  "fst (scrape_nutrition_data True [Some broken_checkpoint] default_config dead_world []
          fresh_scraper)
   = Inl (AttributeError ''str'' ''get'')"
  by (simp add: scrape_nutrition_data_def pending_menu_data_def load_checkpoints_def
      broken_checkpoint_def drop_checkpointed_def nutrition_scrape_def total_variations_def
      restaurant_variations_def py_get_def Let_def)

text \<open>
  Claim C3. On a resumed run, every restaurant name of the loaded checkpoints is absent
  from the mapping handed to stage 3, and the other names stay. Stage 3 returns the names
  it was given, so no name is both in its result and in the checkpoints: the merge
  \<^verbatim>\<open>{**checkpoints, **enriched_data}\<close> never meets a key of both, and a checkpointed
  restaurant, whether stage 2 listed it or not, has its checkpointed data in the final
  result, as it was loaded. The run returns this result when the checkpoint values have
  the shape of the checkpoint files and the menu items are those of stage 2.
\<close>

theorem C3_checkpointed_restaurants:
  assumes "name \<in> fst ` set (load_checkpoints checkpoint_files)"
    and "list_all restaurant_shape (map snd (load_checkpoints checkpoint_files))"
    and "menu_items_plain menu_data"
  shows "name \<notin> fst ` set (pending_menu_data True checkpoint_files menu_data)
         \<and> fst ` set (pending_menu_data True checkpoint_files menu_data)
             = fst ` set menu_data - fst ` set (load_checkpoints checkpoint_files)
         \<and> fst ` set (fst (nutrition_scrape cfg w
                              (pending_menu_data True checkpoint_files menu_data) s))
             \<inter> fst ` set (load_checkpoints checkpoint_files) = {}
         \<and> (\<exists>final data.
               fst (scrape_nutrition_data True checkpoint_files cfg w menu_data s) = Inr final
               \<and> final = dict_merge (load_checkpoints checkpoint_files)
                            (fst (nutrition_scrape cfg w
                                    (pending_menu_data True checkpoint_files menu_data) s))
               \<and> map_of (load_checkpoints checkpoint_files) name = Some data
               \<and> map_of final name = Some data)"
proof -
  let ?checkpoints = "load_checkpoints checkpoint_files"
  let ?pending = "pending_menu_data True checkpoint_files menu_data"
  have a: "name \<notin> fst ` set ?pending"
    using assms(1) by (simp add: pending_keys)
  obtain scraped s1 where ns: "nutrition_scrape cfg w ?pending s = (scraped, s1)"
    by (cases "nutrition_scrape cfg w ?pending s")
  have apart: "fst ` set scraped \<inter> fst ` set ?checkpoints = {}"
    using checkpoint_keys_apart [of cfg w checkpoint_files menu_data s] ns by simp
  have "list_all restaurant_shape (map snd scraped)"
    using scrape_restaurants_shape [of ?pending "[]" cfg w s] pending_plain [OF assms(3)] ns
    by (simp add: nutrition_scrape_def)
  then have "list_all restaurant_shape (map snd (dict_merge ?checkpoints scraped))"
    using assms(2) by (simp add: dict_merge_values)
  then obtain n where n: "total_variations (dict_merge ?checkpoints scraped) = Inr n"
    using total_variations_returns by blast
  have final: "fst (scrape_nutrition_data True checkpoint_files cfg w menu_data s)
               = Inr (dict_merge ?checkpoints scraped)"
    using ns n by (simp add: scrape_nutrition_data_def)
  have "name \<notin> fst ` set scraped"
    using apart assms(1) by blast
  then have same: "map_of (dict_merge ?checkpoints scraped) name = map_of ?checkpoints name"
    by (rule dict_merge_other)
  obtain data where data: "map_of ?checkpoints name = Some data"
    using assms(1) by (cases "map_of ?checkpoints name") (auto simp: map_of_eq_None_iff)
  have sc: "fst (nutrition_scrape cfg w ?pending s) = scraped"
    using ns by simp
  have e: "\<exists>final data.
             fst (scrape_nutrition_data True checkpoint_files cfg w menu_data s) = Inr final
             \<and> final = dict_merge ?checkpoints (fst (nutrition_scrape cfg w ?pending s))
             \<and> map_of ?checkpoints name = Some data
             \<and> map_of final name = Some data"
  proof (intro exI conjI)
    show "fst (scrape_nutrition_data True checkpoint_files cfg w menu_data s)
          = Inr (dict_merge ?checkpoints scraped)"
      by (rule final)
    show "dict_merge ?checkpoints scraped
          = dict_merge ?checkpoints (fst (nutrition_scrape cfg w ?pending s))"
      unfolding sc by (rule refl)
    show "map_of ?checkpoints name = Some data"
      by (rule data)
    show "map_of (dict_merge ?checkpoints scraped) name = Some data"
      unfolding same by (rule data)
  qed
  show ?thesis
    using a pending_keys [of checkpoint_files menu_data]
      checkpoint_keys_apart [of cfg w checkpoint_files menu_data s] e
    by (intro conjI)
qed

theorem C3_checkpointed_restaurants_witness:
  "''Taco Bell'' \<in> fst ` set (load_checkpoints [Some taco_bell_checkpoint])
   \<and> list_all restaurant_shape (map snd (load_checkpoints [Some taco_bell_checkpoint]))
   \<and> menu_items_plain two_menus
   \<and> ''Taco Bell'' \<in> fst ` set two_menus
   \<and> map fst (pending_menu_data True [Some taco_bell_checkpoint] two_menus) = [''KFC'']
   \<and> (\<exists>final.
         fst (scrape_nutrition_data True [Some taco_bell_checkpoint] default_config
                dead_world two_menus fresh_scraper) = Inr final
         \<and> map_of final ''Taco Bell''
             = Some (PDict [(''url'', PStr ''https://site/taco-bell''),
                            (''restaurant_logo'', PStr ''''),
                            (''items'', PList [PDict [(''name'', PStr ''Crunchy Taco'')]])]))"
proof -
  have l: "load_checkpoints [Some taco_bell_checkpoint] = taco_bell_checkpoint"
    by (simp add: load_checkpoints_def taco_bell_checkpoint_def)
  have h1: "''Taco Bell'' \<in> fst ` set (load_checkpoints [Some taco_bell_checkpoint])"
    unfolding l by (simp add: taco_bell_checkpoint_def)
  have h2: "list_all restaurant_shape (map snd (load_checkpoints [Some taco_bell_checkpoint]))"
    unfolding l by (simp add: taco_bell_checkpoint_def)
  have h3: "menu_items_plain two_menus"
    by (simp add: menu_items_plain_def two_menus_def)
  have m: "''Taco Bell'' \<in> fst ` set two_menus"
    by (simp add: two_menus_def)
  have p: "map fst (pending_menu_data True [Some taco_bell_checkpoint] two_menus) = [''KFC'']"
    unfolding pending_menu_data_def l
    by (simp add: taco_bell_checkpoint_def two_menus_def drop_checkpointed_def)
  obtain final data where
    f: "fst (scrape_nutrition_data True [Some taco_bell_checkpoint] default_config
               dead_world two_menus fresh_scraper) = Inr final"
    and c: "map_of (load_checkpoints [Some taco_bell_checkpoint]) ''Taco Bell'' = Some data"
    and v: "map_of final ''Taco Bell'' = Some data"
    using C3_checkpointed_restaurants [OF h1 h2 h3, of default_config dead_world fresh_scraper]
    by (elim conjE exE) (rule that; assumption)
  have "data = PDict [(''url'', PStr ''https://site/taco-bell''),
                      (''restaurant_logo'', PStr ''''),
                      (''items'', PList [PDict [(''name'', PStr ''Crunchy Taco'')]])]"
    using c unfolding l by (simp add: taco_bell_checkpoint_def)
  then have "\<exists>final.
         fst (scrape_nutrition_data True [Some taco_bell_checkpoint] default_config
                dead_world two_menus fresh_scraper) = Inr final
         \<and> map_of final ''Taco Bell''
             = Some (PDict [(''url'', PStr ''https://site/taco-bell''),
                            (''restaurant_logo'', PStr []),
                            (''items'', PList [PDict [(''name'', PStr ''Crunchy Taco'')]])])"
    using f v by (intro exI [of _ final] conjI) simp_all
  then show ?thesis
    using h1 h2 h3 m p by (intro conjI)
qed

end
